theory Spec2Isabelle
  imports Main
begin

section \<open>Python values, errors and results\<close>

text \<open>
  Every \<^verbatim>\<open>raise\<close> of the program is a value: a function that can raise returns
  \<open>pyerror + 'a\<close>, with \<open>Inl\<close> the exception. \<open>and_then\<close> sequences two such steps, as
  consecutive statements do.
\<close>

datatype pyerror =
    TypeError | ValueError | AttributeError | KeyError | ValidationError
  | FileExistsError | NotADirectoryError | FileNotFoundError | IsADirectoryError
  | NotImplementedError

definition and_then :: "'e + 'a \<Rightarrow> ('a \<Rightarrow> 'e + 'b) \<Rightarrow> 'e + 'b" where
  "and_then m f = (case m of Inl e \<Rightarrow> Inl e | Inr x \<Rightarrow> f x)"

datatype pyval = PNone | PBool bool | PInt int | PStr string

text \<open>A configuration tree: a leaf value or a dictionary in insertion order.\<close>

datatype cfg = Leaf pyval | Dict "(string \<times> cfg) list"

text \<open>
  \<^verbatim>\<open>d[k] = v\<close> on a Python dictionary: the value of an existing key is replaced in
  place, a new key is added at the end.
\<close>

fun dict_set :: "'k \<Rightarrow> 'v \<Rightarrow> ('k \<times> 'v) list \<Rightarrow> ('k \<times> 'v) list" where
  "dict_set k v [] = [(k, v)]"
| "dict_set k v ((k', v') # kvs) =
     (if k' = k then (k, v) # kvs else (k', v') # dict_set k v kvs)"

subsection \<open>Formatting an integer, as an f-string does\<close>

definition digit :: "nat \<Rightarrow> char" where
  "digit n = ''0123456789'' ! n"

function str_nat :: "nat \<Rightarrow> string" where
  "str_nat n = (if n < 10 then [digit n] else str_nat (n div 10) @ [digit (n mod 10)])"
  by pat_completeness auto
termination
  by (relation "measure (\<lambda>n. n)") auto

definition str_int :: "int \<Rightarrow> string" where
  "str_int i = (if i < 0 then CHR ''-'' # str_nat (nat (- i)) else str_nat (nat i))"

definition str_opt_int :: "int option \<Rightarrow> string" where
  "str_opt_int v = (case v of None \<Rightarrow> ''None'' | Some i \<Rightarrow> str_int i)"

section \<open>Paths and the file system\<close>

text \<open>
  A \<^verbatim>\<open>pathlib\<close> POSIX path is its root (\<open>''''\<close>, \<open>''/''\<close> or \<open>''//''\<close>) and its parts.
  \<open>Path\<close> parses a string as \<^verbatim>\<open>pathlib.Path(s)\<close> does: it splits at \<open>/\<close> and drops
  empty parts and \<open>.\<close>. \<open>joinpath p s\<close> is \<^verbatim>\<open>p / s\<close>: an absolute right operand
  replaces the left one.
\<close>

datatype pure_path = PurePath (anchor: string) (parts: "string list")

fun split_sep :: "string \<Rightarrow> string list" where
  "split_sep [] = [[]]"
| "split_sep (c # cs) =
     (if c = CHR ''/'' then [] # split_sep cs
      else (case split_sep cs of [] \<Rightarrow> [[c]] | x # xs \<Rightarrow> (c # x) # xs))"

definition splitroot :: "string \<Rightarrow> string" where
  "splitroot s =
     (let k = length (takeWhile (\<lambda>c. c = CHR ''/'') s)
      in if k = 0 then '''' else if k = 2 then ''//'' else ''/'')"

definition Path :: "string \<Rightarrow> pure_path" where
  "Path s = PurePath (splitroot s) (filter (\<lambda>x. x \<noteq> [] \<and> x \<noteq> ''.'') (split_sep s))"

definition joinpath :: "pure_path \<Rightarrow> string \<Rightarrow> pure_path" where
  "joinpath p s =
     (let q = Path s
      in if anchor q \<noteq> [] then q else PurePath (anchor p) (parts p @ parts q))"

fun join_sep :: "string list \<Rightarrow> string" where
  "join_sep [] = []"
| "join_sep [x] = x"
| "join_sep (x # y # ys) = x @ CHR ''/'' # join_sep (y # ys)"

definition path_str :: "pure_path \<Rightarrow> string" where
  "path_str p =
     (if anchor p = [] \<and> parts p = [] then ''.'' else anchor p @ join_sep (parts p))"

text \<open>
  The file system is a list of the entries that exist, keyed by their path as written
  (no symbolic links, no \<open>..\<close> resolution). The root of a path (the working directory
  for a relative one) always exists.
\<close>

datatype 'c fnode = Dir | File 'c

type_synonym 'c filesystem = "(pure_path \<times> 'c fnode) list"

definition is_dir :: "'c filesystem \<Rightarrow> pure_path \<Rightarrow> bool" where
  "is_dir fsys p = (parts p = [] \<or> map_of fsys p = Some Dir)"

definition is_file :: "'c filesystem \<Rightarrow> pure_path \<Rightarrow> bool" where
  "is_file fsys p = (case map_of fsys p of Some (File c) \<Rightarrow> True | _ \<Rightarrow> False)"

definition exists_path :: "'c filesystem \<Rightarrow> pure_path \<Rightarrow> bool" where
  "exists_path fsys p = (parts p = [] \<or> map_of fsys p \<noteq> None)"

text \<open>
  \<^verbatim>\<open>p.mkdir(parents=True, exist_ok=True)\<close>: every missing directory on the way to \<open>p\<close>
  is created; a directory that exists is left alone; a regular file in the way raises.
\<close>

fun mkdir_parts ::
  "'c filesystem \<Rightarrow> string \<Rightarrow> string list \<Rightarrow> string list \<Rightarrow> pyerror + 'c filesystem" where
  "mkdir_parts fsys a pre [] = Inr fsys"
| "mkdir_parts fsys a pre (x # xs) =
     (case map_of fsys (PurePath a (pre @ [x])) of
        Some Dir \<Rightarrow> mkdir_parts fsys a (pre @ [x]) xs
      | Some (File c) \<Rightarrow> Inl (if xs = [] then FileExistsError else NotADirectoryError)
      | None \<Rightarrow> mkdir_parts (fsys @ [(PurePath a (pre @ [x]), Dir)]) a (pre @ [x]) xs)"

definition mkdir :: "'c filesystem \<Rightarrow> pure_path \<Rightarrow> pyerror + 'c filesystem" where
  "mkdir fsys p = mkdir_parts fsys (anchor p) [] (parts p)"

text \<open>
  Shell-style matching of one path component, as \<^verbatim>\<open>Path.glob\<close> uses it: \<open>*\<close> matches
  any run of characters, \<open>?\<close> one character, every other character itself (bracket
  expressions are not interpreted).
\<close>

fun fnmatch :: "string \<Rightarrow> string \<Rightarrow> bool" where
  "fnmatch [] [] = True"
| "fnmatch [] (c # cs) = False"
| "fnmatch (p # ps) [] = (p = CHR ''*'' \<and> fnmatch ps [])"
| "fnmatch (p # ps) (c # cs) =
     (if p = CHR ''*'' then fnmatch ps (c # cs) \<or> fnmatch (p # ps) cs
      else if p = CHR ''?'' then fnmatch ps cs
      else p = c \<and> fnmatch ps cs)"

text \<open>
  \<^verbatim>\<open>d.glob(pattern)\<close>: the entries below \<open>d\<close> whose components match the pattern's
  components one by one. An empty pattern and an absolute pattern are refused.
\<close>

definition glob_match :: "pure_path \<Rightarrow> string list \<Rightarrow> pure_path \<Rightarrow> bool" where
  "glob_match d pats q =
     (anchor q = anchor d
      \<and> length (parts q) = length (parts d) + length pats
      \<and> take (length (parts d)) (parts q) = parts d
      \<and> list_all2 fnmatch pats (drop (length (parts d)) (parts q)))"

definition glob :: "'c filesystem \<Rightarrow> pure_path \<Rightarrow> string \<Rightarrow> pyerror + pure_path list" where
  "glob fsys d pattern =
     (if parts (Path pattern) = [] then Inl ValueError
      else if anchor (Path pattern) \<noteq> [] then Inl NotImplementedError
      else Inr (filter (glob_match d (parts (Path pattern))) (map fst fsys)))"

section \<open>The world outside the program\<close>

text \<open>
  What the program reads and changes besides its own objects: the file system, the
  working directory, the configuration composition service (\<^verbatim>\<open>eKonf.compose\<close>, a
  function from a group name to a tree), the operating system's entropy behind
  \<^verbatim>\<open>random.seed()\<close> (a sequence, and how many numbers were drawn), and the store of
  configuration containers (section on the configuration store).
\<close>

datatype content = Yaml cfg | Json

record world =
  fs :: "content filesystem"
  cwd :: pure_path
  compose :: "string \<Rightarrow> cfg"
  entropy :: "nat \<Rightarrow> int"
  drawn :: nat
  heap :: "nat \<Rightarrow> cfg"
  next_addr :: nat

text \<open>\<^verbatim>\<open>random.randint(a, b)\<close> returns an integer \<open>N\<close> with \<open>a \<le> N \<le> b\<close>.\<close>

definition randint :: "int \<Rightarrow> int \<Rightarrow> int \<Rightarrow> int" where
  "randint a b r = a + r mod (b - a + 1)"

section \<open>PathConfig\<close>

record path_config =
  task_name :: string
  root :: "string option"
  path_batch_name :: "string option"
  path_verbose :: bool

definition root_dir :: "path_config \<Rightarrow> pyerror + pure_path" where
  "root_dir pc = (case root pc of None \<Rightarrow> Inl TypeError | Some r \<Rightarrow> Inr (Path r))"

definition PathConfig_output_dir :: "path_config \<Rightarrow> pyerror + pure_path" where
  "PathConfig_output_dir pc = and_then (root_dir pc) (\<lambda>r. Inr (joinpath r ''outputs''))"

definition PathConfig_batch_dir :: "path_config \<Rightarrow> pyerror + pure_path" where
  "PathConfig_batch_dir pc =
     and_then (PathConfig_output_dir pc) (\<lambda>out.
       case path_batch_name pc of None \<Rightarrow> Inl TypeError | Some n \<Rightarrow> Inr (joinpath out n))"

section \<open>BaseBatchConfig\<close>

text \<open>
  The fields the batch identity, its paths and its seed depend on (\<^verbatim>\<open>num_workers\<close>,
  \<^verbatim>\<open>device\<close> and \<^verbatim>\<open>num_devices\<close> are carried through untouched by the code and are
  left out).
\<close>

record batch_config =
  batch_name :: string
  batch_num :: "int option"
  output_dir :: pure_path
  output_suffix :: "string option"
  output_extention :: string
  random_seed :: bool
  seed :: "int option"
  resume_run :: bool
  resume_latest :: bool
  config_yaml :: string
  config_json :: string
  config_dirname :: string
  verbose :: bool

subsection \<open>The validators\<close>

definition validate_seed :: "int option \<Rightarrow> bool \<Rightarrow> world \<Rightarrow> int option \<times> world" where
  "validate_seed v rs w =
     (if rs \<or> v = None \<or> (case v of None \<Rightarrow> False | Some i \<Rightarrow> i < 0)
      then (Some (randint 0 (2 ^ 32 - 1) (entropy w (drawn w))), w\<lparr>drawn := drawn w + 1\<rparr>)
      else (v, w))"

definition strip_dots :: "string \<Rightarrow> string" where
  "strip_dots s =
     rev (dropWhile (\<lambda>c. c = CHR ''.'') (rev (dropWhile (\<lambda>c. c = CHR ''.'') s)))"

definition validate_output_extention :: "string option \<Rightarrow> string" where
  "validate_output_extention v =
     (case v of None \<Rightarrow> [] | Some s \<Rightarrow> if s \<noteq> [] then strip_dots s else [])"

subsection \<open>Reading the keyword arguments\<close>

text \<open>
  The constructor receives a dictionary. pydantic takes each field from it or uses the
  field's default; a value of another type is refused (pydantic's coercions between
  types are not modelled). A validator runs only on a value that was supplied: the
  decorators carry no \<^verbatim>\<open>always=True\<close>.
\<close>

definition get_str :: "(string \<times> cfg) list \<Rightarrow> string \<Rightarrow> string \<Rightarrow> pyerror + string" where
  "get_str data k dflt =
     (case map_of data k of
        None \<Rightarrow> Inr dflt
      | Some (Leaf (PStr s)) \<Rightarrow> Inr s
      | Some _ \<Rightarrow> Inl ValidationError)"

definition get_required_str :: "(string \<times> cfg) list \<Rightarrow> string \<Rightarrow> pyerror + string" where
  "get_required_str data k =
     (case map_of data k of
        Some (Leaf (PStr s)) \<Rightarrow> Inr s
      | _ \<Rightarrow> Inl ValidationError)"

definition get_opt_str :: "(string \<times> cfg) list \<Rightarrow> string \<Rightarrow> pyerror + string option" where
  "get_opt_str data k =
     (case map_of data k of
        None \<Rightarrow> Inr None
      | Some (Leaf PNone) \<Rightarrow> Inr None
      | Some (Leaf (PStr s)) \<Rightarrow> Inr (Some s)
      | Some _ \<Rightarrow> Inl ValidationError)"

definition get_opt_int :: "(string \<times> cfg) list \<Rightarrow> string \<Rightarrow> pyerror + int option" where
  "get_opt_int data k =
     (case map_of data k of
        None \<Rightarrow> Inr None
      | Some (Leaf PNone) \<Rightarrow> Inr None
      | Some (Leaf (PInt i)) \<Rightarrow> Inr (Some i)
      | Some _ \<Rightarrow> Inl ValidationError)"

definition get_bool :: "(string \<times> cfg) list \<Rightarrow> string \<Rightarrow> bool \<Rightarrow> pyerror + bool" where
  "get_bool data k dflt =
     (case map_of data k of
        None \<Rightarrow> Inr dflt
      | Some (Leaf (PBool b)) \<Rightarrow> Inr b
      | Some _ \<Rightarrow> Inl ValidationError)"

definition get_path :: "(string \<times> cfg) list \<Rightarrow> string \<Rightarrow> pure_path \<Rightarrow> pyerror + pure_path" where
  "get_path data k dflt =
     (case map_of data k of
        None \<Rightarrow> Inr dflt
      | Some (Leaf (PStr s)) \<Rightarrow> Inr (Path s)
      | Some _ \<Rightarrow> Inl ValidationError)"

text \<open>
  A field with a validator: the default when the key is absent, the validator's result
  when a value is supplied.
\<close>

definition seed_field ::
  "(string \<times> cfg) list \<Rightarrow> int option \<Rightarrow> bool \<Rightarrow> world \<Rightarrow> int option \<times> world" where
  "seed_field data v rs w =
     (if map_of data ''seed'' = None then (None, w) else validate_seed v rs w)"

definition output_extention_field :: "(string \<times> cfg) list \<Rightarrow> string option \<Rightarrow> string" where
  "output_extention_field data v =
     (if map_of data ''output_extention'' = None then [] else validate_output_extention v)"

text \<open>
  \<^verbatim>\<open>super().__init__(**data)\<close>: the fields in the order of the class, with the two
  validators. The seed validator reads \<^verbatim>\<open>random_seed\<close>, validated before it.
\<close>

definition validate_fields :: "(string \<times> cfg) list \<Rightarrow> world \<Rightarrow> pyerror + batch_config \<times> world" where
  "validate_fields data w =
     and_then (get_required_str data ''batch_name'') (\<lambda>v_name.
     and_then (get_opt_int data ''batch_num'') (\<lambda>v_num.
     and_then (get_path data ''output_dir'' (joinpath (cwd w) ''outputs'')) (\<lambda>v_dir.
     and_then (get_opt_str data ''output_suffix'') (\<lambda>v_suffix.
     and_then (get_opt_str data ''output_extention'') (\<lambda>v_ext.
     and_then (get_bool data ''random_seed'' True) (\<lambda>v_random.
     and_then (get_opt_int data ''seed'') (\<lambda>v_seed.
     and_then (get_bool data ''resume_run'' False) (\<lambda>v_run.
     and_then (get_bool data ''resume_latest'' False) (\<lambda>v_latest.
     and_then (get_str data ''config_yaml'' ''config.yaml'') (\<lambda>v_yaml.
     and_then (get_str data ''config_json'' ''config.json'') (\<lambda>v_json.
     and_then (get_str data ''config_dirname'' ''configs'') (\<lambda>v_dirname.
     and_then (get_bool data ''verbose'' False) (\<lambda>v_verbose.
       Inr (\<lparr>batch_name = v_name, batch_num = v_num, output_dir = v_dir,
             output_suffix = v_suffix,
             output_extention = output_extention_field data v_ext,
             random_seed = v_random,
             seed = fst (seed_field data v_seed v_random w),
             resume_run = v_run, resume_latest = v_latest, config_yaml = v_yaml,
             config_json = v_json, config_dirname = v_dirname, verbose = v_verbose\<rparr>,
            snd (seed_field data v_seed v_random w)))))))))))))))"

subsection \<open>The derived names and directories\<close>

definition batch_dir :: "batch_config \<Rightarrow> world \<Rightarrow> pyerror + pure_path \<times> world" where
  "batch_dir b w =
     (let p = joinpath (output_dir b) (batch_name b)
      in and_then (mkdir (fs w) p) (\<lambda>f. Inr (p, w\<lparr>fs := f\<rparr>)))"

definition config_dir :: "batch_config \<Rightarrow> world \<Rightarrow> pyerror + pure_path \<times> world" where
  "config_dir b w =
     and_then (batch_dir b w) (\<lambda>(bd, w1).
       let p = joinpath bd (config_dirname b)
       in and_then (mkdir (fs w1) p) (\<lambda>f. Inr (p, w1\<lparr>fs := f\<rparr>)))"

definition batch_file_prefix :: "batch_config \<Rightarrow> string" where
  "batch_file_prefix b = batch_name b @ ''('' @ str_opt_int (batch_num b) @ '')''"

definition output_file :: "batch_config \<Rightarrow> string" where
  "output_file b =
     (case output_suffix b of
        Some (c # cs) \<Rightarrow> batch_file_prefix b @ ''_'' @ (c # cs) @ ''.'' @ output_extention b
      | _ \<Rightarrow> batch_file_prefix b @ ''.'' @ output_extention b)"

definition config_filename :: "batch_config \<Rightarrow> string" where
  "config_filename b = batch_file_prefix b @ ''_'' @ config_yaml b"

definition config_jsonfile :: "batch_config \<Rightarrow> string" where
  "config_jsonfile b = batch_file_prefix b @ ''_'' @ config_json b"

definition config_filepattern :: "batch_config \<Rightarrow> string" where
  "config_filepattern b = batch_name b @ ''(*)_'' @ config_yaml b"

definition config_filepath :: "batch_config \<Rightarrow> world \<Rightarrow> pyerror + pure_path \<times> world" where
  "config_filepath b w =
     and_then (config_dir b w) (\<lambda>(d, w1). Inr (joinpath d (config_filename b), w1))"

definition config_jsonpath :: "batch_config \<Rightarrow> world \<Rightarrow> pyerror + pure_path \<times> world" where
  "config_jsonpath b w =
     and_then (config_dir b w) (\<lambda>(d, w1). Inr (joinpath d (config_jsonfile b), w1))"

subsection \<open>The batch number and the constructor\<close>

definition init_batch_num :: "batch_config \<Rightarrow> world \<Rightarrow> pyerror + batch_config \<times> world" where
  "init_batch_num b w =
     (case batch_num b of
        Some n \<Rightarrow> Inr (b, w)
      | None \<Rightarrow>
          and_then (config_dir b w) (\<lambda>(d, w1).
          and_then (glob (fs w1) d (config_filepattern b)) (\<lambda>found.
            let num_files = int (length found)
            in if resume_latest b
               then Inr (b\<lparr>batch_num := Some (num_files - 1)\<rparr>, w1)
               else Inr (b\<lparr>batch_num := Some num_files\<rparr>, w1))))"

definition BaseBatchConfig_init ::
  "(string \<times> cfg) list \<Rightarrow> world \<Rightarrow> pyerror + batch_config \<times> world" where
  "BaseBatchConfig_init data w =
     (let data1 = (if data = [] then (case compose w ''batch'' of Dict kv \<Rightarrow> kv | Leaf v \<Rightarrow> [])
                   else data)
      in and_then (validate_fields data1 w) (\<lambda>(b, w1). init_batch_num b w1))"

text \<open>
  A string argument is unset when its key is absent, \<^verbatim>\<open>None\<close> or the empty string
  (the three are false in a Python condition).
\<close>

definition unset_str :: "cfg option \<Rightarrow> bool" where
  "unset_str v = (v = None \<or> v = Some (Leaf PNone) \<or> v = Some (Leaf (PStr [])))"

section \<open>DatasetBuilder\<close>

text \<open>
  The builder talks to collaborators the repository does not define: the downloader and
  the loader it instantiates, the pipeline runner, the dataframe reader and the summary
  object. Each is a parameter. A collaborator may read and change the file system and
  may raise. What the builder asks of them is recorded, in order, in a trace; of the
  summary object's \<^verbatim>\<open>load\<close>, \<^verbatim>\<open>init_stats\<close> and \<^verbatim>\<open>calculate_stats\<close> only the call is
  recorded, and the object \<^verbatim>\<open>eKonf.instantiate\<close> returns for it counts as true. The
  progress messages other than the two the skip path prints are left out.
\<close>

datatype event =
    DownloaderRun
  | DownloaderPipelineRun
  | InfoLoaded
  | LoaderCalled string
  | PipelineApplied "string list"
  | DataframeLoaded pure_path
  | StatsInitialised string bool
  | StatsCalculated string
  | InfoSaved
  | Logged string

record 'df bworld =
  bfs :: "'df filesystem"
  trace :: "event list"

datatype parg = ArgStr string | ArgCfg cfg | ArgKeys "string list"

type_synonym pargs = "(string \<times> (string \<times> parg) list) list"

record 'df build_collab =
  run_downloader :: "'df filesystem \<Rightarrow> pyerror + 'df filesystem"
  run_downloader_pipeline :: "'df filesystem \<Rightarrow> pyerror + 'df filesystem"
  run_loader :: "string \<Rightarrow> 'df filesystem \<Rightarrow> pyerror + 'df option \<times> 'df filesystem"
  apply_pipeline ::
    "'df \<Rightarrow> string list \<Rightarrow> pargs \<Rightarrow> 'df filesystem \<Rightarrow> pyerror + 'df \<times> 'df filesystem"
  load_dataframe :: "pure_path \<Rightarrow> string \<Rightarrow> 'df filesystem \<Rightarrow> pyerror + 'df option"
  save_info :: "'df filesystem \<Rightarrow> pyerror + 'df filesystem"

text \<open>
  The builder after \<^verbatim>\<open>__init__\<close>. \<^verbatim>\<open>downloader\<close> is \<open>None\<close> when the configuration has
  none, else whether it has a \<^verbatim>\<open>_target_\<close> and whether it has a \<^verbatim>\<open>pipeline\<close>.
  \<^verbatim>\<open>info_args\<close> and \<^verbatim>\<open>summary_info\<close> are kept as their truth value. The lists
  \<^verbatim>\<open>_transform_\<close> and \<^verbatim>\<open>_preprocess_\<close> are the fields \<open>transform_pipeline\<close> and
  \<open>process_pipeline\<close>; \<open>pipeline_args\<close> holds the argument dictionary of each step.
\<close>

record builder =
  db_name :: string
  db_data_dir :: "string option"
  data_filetype :: string
  column_info :: cfg
  db_verbose :: bool
  fetch_sources :: "(string \<times> string list option) list option"
  overwrite :: bool
  calculate_stats :: bool
  preprocess_text :: bool
  downloader :: "(bool \<times> bool) option"
  info_args :: bool
  summary_info :: bool
  pipeline_args :: pargs
  transform_pipeline :: "string list"
  process_pipeline :: "string list"

text \<open>
  An exception leaves the world as it was when it was raised: the error of a builder
  step carries that world.
\<close>

definition raise_in :: "'w \<Rightarrow> pyerror + 'a \<Rightarrow> (pyerror \<times> 'w) + 'a" where
  "raise_in w m = (case m of Inl e \<Rightarrow> Inl (e, w) | Inr x \<Rightarrow> Inr x)"

definition emit :: "event \<Rightarrow> 'df bworld \<Rightarrow> 'df bworld" where
  "emit ev w = w\<lparr>trace := trace w @ [ev]\<rparr>"

subsection \<open>The paths of a split\<close>

definition split_output_file :: "builder \<Rightarrow> pure_path \<Rightarrow> string \<Rightarrow> pure_path" where
  "split_output_file b out split =
     joinpath out (db_name b @ ''-'' @ split @ data_filetype b)"

definition split_output_meta_file :: "builder \<Rightarrow> pure_path \<Rightarrow> string \<Rightarrow> pure_path" where
  "split_output_meta_file b out split =
     joinpath out (''meta-'' @ db_name b @ ''-'' @ split @ data_filetype b)"

definition split_sample_file_prefix :: "builder \<Rightarrow> pure_path \<Rightarrow> string \<Rightarrow> string" where
  "split_sample_file_prefix b out split =
     path_str out @ ''/sample-'' @ db_name b @ ''-'' @ split @ ''-''"

subsection \<open>Registering the saving steps\<close>

definition set_arg :: "string \<Rightarrow> string \<Rightarrow> parg \<Rightarrow> pargs \<Rightarrow> pargs" where
  "set_arg pipe k v pa =
     (case map_of pa pipe of
        None \<Rightarrow> pa
      | Some d \<Rightarrow> dict_set pipe (dict_set k v d) pa)"

definition append_new :: "string \<Rightarrow> string list \<Rightarrow> string list" where
  "append_new pipe ps = (if pipe \<in> set ps then ps else ps @ [pipe])"

definition register_save_metadata :: "builder \<Rightarrow> pure_path \<Rightarrow> string \<Rightarrow> builder" where
  "register_save_metadata b out split =
     (if map_of (pipeline_args b) ''save_metadata'' = None then b
      else b\<lparr>transform_pipeline := append_new ''save_metadata'' (transform_pipeline b),
             pipeline_args :=
               set_arg ''save_metadata'' ''split_name'' (ArgStr split)
                 (set_arg ''save_metadata'' ''column_info'' (ArgCfg (column_info b))
                   (set_arg ''save_metadata'' ''filepath''
                      (ArgStr (path_str (split_output_meta_file b out split)))
                      (pipeline_args b)))\<rparr>)"

definition register_save_samples :: "builder \<Rightarrow> pure_path \<Rightarrow> string \<Rightarrow> builder" where
  "register_save_samples b out split =
     (if map_of (pipeline_args b) ''save_samples'' = None then b
      else b\<lparr>process_pipeline := append_new ''save_samples'' (process_pipeline b),
             pipeline_args :=
               set_arg ''save_samples'' ''sample_file_prefix''
                 (ArgStr (split_sample_file_prefix b out split)) (pipeline_args b)\<rparr>)"

definition truthy :: "pyval \<Rightarrow> bool" where
  "truthy v = (case v of PNone \<Rightarrow> False | PBool b \<Rightarrow> b | PInt i \<Rightarrow> i \<noteq> 0 | PStr s \<Rightarrow> s \<noteq> [])"

definition columns_to_keep :: "cfg \<Rightarrow> pyerror + parg" where
  "columns_to_keep ci =
     (case ci of
        Leaf v \<Rightarrow> Inl AttributeError
      | Dict kv \<Rightarrow>
          (case map_of kv ''data'' of
             None \<Rightarrow> Inr (ArgCfg (Leaf PNone))
           | Some (Dict []) \<Rightarrow> Inr (ArgCfg (Dict []))
           | Some (Dict (c # cs)) \<Rightarrow> Inr (ArgKeys (map fst (c # cs)))
           | Some (Leaf v) \<Rightarrow> if truthy v then Inl AttributeError else Inr (ArgCfg (Leaf v))))"

definition register_save_dataframe :: "builder \<Rightarrow> pure_path \<Rightarrow> string \<Rightarrow> pyerror + builder" where
  "register_save_dataframe b out split =
     (if map_of (pipeline_args b) ''save_dataframe'' = None then Inr b
      else and_then (columns_to_keep (column_info b)) (\<lambda>keep.
             Inr (b\<lparr>process_pipeline := append_new ''save_dataframe'' (process_pipeline b),
                     pipeline_args :=
                       set_arg ''save_dataframe'' ''columns_to_keep'' keep
                         (set_arg ''save_dataframe'' ''filepath''
                            (ArgStr (path_str (split_output_file b out split)))
                            (pipeline_args b))\<rparr>)))"

text \<open>
  Lines 96 to 124 of \<^verbatim>\<open>_process_split\<close>: the output directory is created when it is
  not there, then the three saving steps are registered.
\<close>

definition split_setup ::
  "builder \<Rightarrow> string \<Rightarrow> 'df bworld \<Rightarrow> (pyerror \<times> 'df bworld) + builder \<times> 'df bworld \<times> pure_path" where
  "split_setup b split w =
     (case db_data_dir b of
        None \<Rightarrow> Inl (TypeError, w)
      | Some dd \<Rightarrow>
          and_then (if is_dir (bfs w) (Path dd) then Inr w
                    else raise_in w (and_then (mkdir (bfs w) (Path dd)) (\<lambda>f. Inr (w\<lparr>bfs := f\<rparr>))))
            (\<lambda>w1.
          and_then (raise_in w1 (register_save_dataframe
                      (register_save_samples (register_save_metadata b (Path dd) split)
                         (Path dd) split) (Path dd) split))
            (\<lambda>b1. Inr (b1, w1, Path dd))))"

subsection \<open>Processing one split\<close>

text \<open>Lines 126 to 158: the table of the split, fetched, reloaded or absent.\<close>

definition fetch_split ::
  "'df build_collab \<Rightarrow> builder \<Rightarrow> string \<Rightarrow> pure_path \<Rightarrow> 'df bworld
     \<Rightarrow> (pyerror \<times> 'df bworld) + 'df option \<times> 'df bworld" where
  "fetch_split c b split out w =
     (if \<not> exists_path (bfs w) (split_output_file b out split) \<or> overwrite b
      then
        (let w1 = emit (LoaderCalled split) w
         in and_then (raise_in w1 (run_loader c split (bfs w1))) (\<lambda>(r, f).
              let w2 = w1\<lparr>bfs := f\<rparr>
              in case r of
                   None \<Rightarrow> Inl (ValueError, w2)
                 | Some df \<Rightarrow>
                     and_then
                       (if transform_pipeline b \<noteq> []
                        then (let w3 = emit (PipelineApplied (transform_pipeline b)) w2
                              in and_then
                                   (raise_in w3 (apply_pipeline c df (transform_pipeline b)
                                                   (pipeline_args b) (bfs w3)))
                                   (\<lambda>(df1, f1). Inr (df1, w3\<lparr>bfs := f1\<rparr>)))
                        else Inr (df, w2))
                       (\<lambda>(df1, w4).
                          if summary_info b \<and> calculate_stats b
                          then Inr (Some df1,
                                    emit (StatsInitialised split
                                            (is_file (bfs w4) (split_output_meta_file b out split)))
                                      w4)
                          else Inr (Some df1, w4))))
      else
        (let w1 = emit (Logged (path_str (split_output_file b out split) @ '' already exists'')) w
         in if calculate_stats b \<or> preprocess_text b
            then (let w2 = emit (DataframeLoaded (split_output_file b out split)) w1
                  in and_then
                       (raise_in w2 (load_dataframe c (split_output_file b out split)
                                       (data_filetype b) (bfs w2)))
                       (\<lambda>r. Inr (r, w2)))
            else Inr (None, w1)))"

text \<open>Lines 160 to 169: the processing steps and the statistics of the table.\<close>

definition finish_split ::
  "'df build_collab \<Rightarrow> builder \<Rightarrow> string \<Rightarrow> 'df option \<Rightarrow> 'df bworld
     \<Rightarrow> (pyerror \<times> 'df bworld) + builder \<times> 'df bworld" where
  "finish_split c b split r w =
     (case r of
        None \<Rightarrow> Inr (b, emit (Logged ''No datasets found'') w)
      | Some df \<Rightarrow>
          and_then
            (if process_pipeline b \<noteq> []
             then (let w1 = emit (PipelineApplied (process_pipeline b)) w
                   in and_then
                        (raise_in w1 (apply_pipeline c df (process_pipeline b)
                                        (pipeline_args b) (bfs w1)))
                        (\<lambda>(df1, f1). Inr (df1, w1\<lparr>bfs := f1\<rparr>)))
             else Inr (df, w))
            (\<lambda>(df1, w2).
               if calculate_stats b \<and> summary_info b
               then Inr (b, emit (StatsCalculated split) w2)
               else Inr (b, w2)))"

definition process_split ::
  "'df build_collab \<Rightarrow> builder \<Rightarrow> string \<Rightarrow> 'df bworld
     \<Rightarrow> (pyerror \<times> 'df bworld) + builder \<times> 'df bworld" where
  "process_split c b split w =
     and_then (split_setup b split w) (\<lambda>(b1, w1, out).
     and_then (fetch_split c b1 split out w1) (\<lambda>(r, w2). finish_split c b1 split r w2))"

subsection \<open>The whole build\<close>

fun process_splits ::
  "'df build_collab \<Rightarrow> builder \<Rightarrow> (string \<times> string list option) list \<Rightarrow> 'df bworld
     \<Rightarrow> (pyerror \<times> 'df bworld) + builder \<times> 'df bworld" where
  "process_splits c b [] w = Inr (b, w)"
| "process_splits c b ((split, source) # rest) w =
     (case source of
        None \<Rightarrow> process_splits c b rest w
      | Some src \<Rightarrow>
          and_then (process_split c b split w) (\<lambda>(b1, w1). process_splits c b1 rest w1))"

definition run_downloads ::
  "'df build_collab \<Rightarrow> builder \<Rightarrow> 'df bworld \<Rightarrow> (pyerror \<times> 'df bworld) + 'df bworld" where
  "run_downloads c b w =
     (case downloader b of
        None \<Rightarrow> Inr w
      | Some (has_target, has_pipeline) \<Rightarrow>
          and_then
            (if has_target
             then (let w1 = emit DownloaderRun w
                   in and_then (raise_in w1 (run_downloader c (bfs w1)))
                        (\<lambda>f. Inr (w1\<lparr>bfs := f\<rparr>)))
             else Inr w)
            (\<lambda>w2. if has_pipeline
                   then (let w3 = emit DownloaderPipelineRun w2
                         in and_then (raise_in w3 (run_downloader_pipeline c (bfs w3)))
                              (\<lambda>f. Inr (w3\<lparr>bfs := f\<rparr>)))
                   else Inr w2))"

definition build_start ::
  "'df build_collab \<Rightarrow> builder \<Rightarrow> 'df bworld \<Rightarrow> (pyerror \<times> 'df bworld) + builder \<times> 'df bworld" where
  "build_start c b w =
     and_then (run_downloads c b w)
       (\<lambda>w4. let b1 = (if info_args b then b\<lparr>summary_info := True\<rparr> else b)
              in if summary_info b1 then Inr (b1, emit InfoLoaded w4) else Inr (b1, w4))"

definition build ::
  "'df build_collab \<Rightarrow> builder \<Rightarrow> 'df bworld \<Rightarrow> (pyerror \<times> 'df bworld) + builder \<times> 'df bworld" where
  "build c b w =
     and_then (build_start c b w) (\<lambda>(b1, w1).
     and_then (case fetch_sources b1 of
                 None \<Rightarrow> Inl (AttributeError, w1)
               | Some sources \<Rightarrow> process_splits c b1 sources w1) (\<lambda>(b2, w2).
       if summary_info b2
       then (let w3 = emit InfoSaved w2
             in and_then (raise_in w3 (save_info c (bfs w3))) (\<lambda>f. Inr (b2, w3\<lparr>bfs := f\<rparr>)))
       else Inr (b2, w2)))"

text \<open>
  A collaborator keeps the existing paths when every path that exists before a call of
  it exists after the call.
\<close>

definition keeps_paths :: "'df build_collab \<Rightarrow> bool" where
  "keeps_paths c =
     (\<forall>f f' p. exists_path f p \<longrightarrow>
        (run_downloader c f = Inr f' \<longrightarrow> exists_path f' p)
      \<and> (run_downloader_pipeline c f = Inr f' \<longrightarrow> exists_path f' p)
      \<and> (\<forall>df steps pa df'. apply_pipeline c df steps pa f = Inr (df', f') \<longrightarrow> exists_path f' p)
      \<and> (\<forall>split r. run_loader c split f = Inr (r, f') \<longrightarrow> exists_path f' p))"

definition loader_calls :: "event list \<Rightarrow> string list" where
  "loader_calls evs = concat (map (\<lambda>ev. case ev of LoaderCalled s \<Rightarrow> [s] | _ \<Rightarrow> []) evs)"

definition world_of :: "(pyerror \<times> 'w) + 'a \<times> 'w \<Rightarrow> 'w" where
  "world_of r = (case r of Inl (e, w) \<Rightarrow> w | Inr (x, w) \<Rightarrow> w)"

section \<open>Dataset\<close>

record 'df dataset_collab =
  read_dataframe :: "pure_path \<Rightarrow> cfg \<Rightarrow> 'df filesystem \<Rightarrow> pyerror + 'df"
  run_pipeline ::
    "'df \<Rightarrow> string list \<Rightarrow> pargs \<Rightarrow> 'df filesystem \<Rightarrow> pyerror + 'df \<times> 'df filesystem"

record 'df dataset =
  ds_data_dir :: pure_path
  data_files :: "(string \<times> string) list"
  data_keys :: cfg
  ds_pipeline_args :: pargs
  ds_process_pipeline :: "string list"
  splits :: "(string \<times> 'df) list"
  loaded :: bool

fun load_files ::
  "'df dataset_collab \<Rightarrow> 'df dataset \<Rightarrow> (string \<times> string) list \<Rightarrow> 'df bworld
     \<Rightarrow> (pyerror \<times> 'df bworld) + 'df dataset \<times> 'df bworld" where
  "load_files c d [] w = Inr (d, w)"
| "load_files c d ((split, data_file) # rest) w =
     (let p = joinpath (ds_data_dir d) data_file;
          w1 = emit (DataframeLoaded p) w
      in and_then (raise_in w1 (read_dataframe c p (data_keys d) (bfs w1))) (\<lambda>df.
         and_then
           (if ds_process_pipeline d \<noteq> []
            then (let w2 = emit (PipelineApplied (ds_process_pipeline d)) w1
                  in and_then
                       (raise_in w2 (run_pipeline c df (ds_process_pipeline d)
                                       (ds_pipeline_args d) (bfs w2)))
                       (\<lambda>(df1, f1). Inr (df1, w2\<lparr>bfs := f1\<rparr>)))
            else Inr (df, w1))
           (\<lambda>(df1, w3). load_files c (d\<lparr>splits := dict_set split df1 (splits d)\<rparr>) rest w3)))"

definition load ::
  "'df dataset_collab \<Rightarrow> 'df dataset \<Rightarrow> 'df bworld
     \<Rightarrow> (pyerror \<times> 'df bworld) + 'df dataset \<times> 'df bworld" where
  "load c d w =
     (if loaded d then Inr (d, w)
      else and_then (load_files c d (data_files d) w) (\<lambda>(d1, w1). Inr (d1\<lparr>loaded := True\<rparr>, w1)))"

text \<open>The files read from, in the order of the reads.\<close>

definition dataframe_reads :: "event list \<Rightarrow> pure_path list" where
  "dataframe_reads evs =
     concat (map (\<lambda>ev. case ev of DataframeLoaded p \<Rightarrow> [p] | _ \<Rightarrow> []) evs)"

section \<open>Configuration containers\<close>

text \<open>
  A \<^verbatim>\<open>DictConfig\<close> is an object: its nested containers are objects of their own, held
  by reference. The model keeps the top-level dictionary as a list of entries; an entry
  is a leaf value or the address of the nested container, whose tree is in the heap of
  the world. Two dictionaries that hold the same address share that container:
  assigning below it through one of them is seen through the other.
\<close>

datatype entry = Val pyval | Ref nat

type_synonym dictconfig = "(string \<times> entry) list"

definition entry_tree :: "world \<Rightarrow> entry \<Rightarrow> cfg" where
  "entry_tree w e = (case e of Val v \<Rightarrow> Leaf v | Ref a \<Rightarrow> heap w a)"

text \<open>\<^verbatim>\<open>eKonf.to_dict(cfg)\<close>: the plain tree a container stands for.\<close>

definition to_dict :: "world \<Rightarrow> dictconfig \<Rightarrow> cfg" where
  "to_dict w dc = Dict (map (\<lambda>(k, e). (k, entry_tree w e)) dc)"

text \<open>
  \<^verbatim>\<open>eKonf.to_config(args)\<close>: a new container for a plain dictionary, every nested
  dictionary at a fresh address.
\<close>

fun to_config :: "(string \<times> cfg) list \<Rightarrow> world \<Rightarrow> dictconfig \<times> world" where
  "to_config [] w = ([], w)"
| "to_config ((k, Leaf v) # kvs) w =
     (let (dc, w1) = to_config kvs w in ((k, Val v) # dc, w1))"
| "to_config ((k, Dict d) # kvs) w =
     (let (dc, w1) = to_config kvs
                       (w\<lparr>heap := (heap w)(next_addr w := Dict d),
                           next_addr := Suc (next_addr w)\<rparr>)
      in ((k, Ref (next_addr w)) # dc, w1))"

text \<open>
  \<^verbatim>\<open>cfg.copy()\<close> is the shallow copy of Python: a new top-level dictionary with the
  entries of the old one. Leaf values are copied; a nested container is not, the copy
  holds the same address.
\<close>

definition DictConfig_copy :: "dictconfig \<Rightarrow> dictconfig" where
  "DictConfig_copy dc = map (\<lambda>(k, e). (k, e)) dc"

text \<open>
  Modelled from the spec: \<^verbatim>\<open>eKonf.merge\<close> is not among the sources. The spec has later
  sources win key by key on conflict, nested maps merged structurally; the result is a
  new configuration.
\<close>

fun merge_cfg :: "cfg \<Rightarrow> cfg \<Rightarrow> cfg"
  and merge_items :: "(string \<times> cfg) list \<Rightarrow> (string \<times> cfg) list \<Rightarrow> (string \<times> cfg) list" where
  "merge_cfg (Dict xs) (Dict ys) = Dict (merge_items xs ys)"
| "merge_cfg (Dict xs) (Leaf v) = Leaf v"
| "merge_cfg (Leaf u) y = y"
| "merge_items xs [] = xs"
| "merge_items xs ((k, v) # ys) =
     merge_items (case map_of xs k of
                    None \<Rightarrow> xs @ [(k, v)]
                  | Some u \<Rightarrow> dict_set k (merge_cfg u v) xs) ys"

definition items :: "cfg \<Rightarrow> (string \<times> cfg) list" where
  "items t = (case t of Dict kvs \<Rightarrow> kvs | Leaf v \<Rightarrow> [])"

definition merge :: "dictconfig \<Rightarrow> cfg \<Rightarrow> world \<Rightarrow> dictconfig \<times> world" where
  "merge dc overrides w = to_config (items (merge_cfg (to_dict w dc) overrides)) w"

text \<open>
  \<^verbatim>\<open>cfg.k1.k2 = v\<close>: the container under \<open>k1\<close> is updated in place. Without a container
  under \<open>k1\<close> the assignment raises.
\<close>

definition set_nested ::
  "string \<Rightarrow> string \<Rightarrow> cfg \<Rightarrow> dictconfig \<Rightarrow> world \<Rightarrow> pyerror + world" where
  "set_nested k1 k2 v dc w =
     (case map_of dc k1 of
        Some (Ref a) \<Rightarrow>
          (case heap w a of
             Dict kvs \<Rightarrow> Inr (w\<lparr>heap := (heap w)(a := Dict (dict_set k2 v kvs))\<rparr>)
           | Leaf u \<Rightarrow> Inl AttributeError)
      | _ \<Rightarrow> Inl AttributeError)"

definition pyval_of_int :: "int option \<Rightarrow> pyval" where
  "pyval_of_int v = (case v of None \<Rightarrow> PNone | Some i \<Rightarrow> PInt i)"

subsection \<open>Files of configurations\<close>

text \<open>
  Modelled from the spec: \<^verbatim>\<open>eKonf.save\<close> and \<^verbatim>\<open>eKonf.load\<close> are not among the sources.
  The spec has the structured document round-trip: loading a saved document gives the
  tree that was saved. The settings document written beside it is kept as a mark.
\<close>

definition parent :: "pure_path \<Rightarrow> pure_path" where
  "parent p = PurePath (anchor p) (butlast (parts p))"

definition write_file :: "'c filesystem \<Rightarrow> pure_path \<Rightarrow> 'c \<Rightarrow> pyerror + 'c filesystem" where
  "write_file fsys p c =
     (if parts p = [] \<or> map_of fsys p = Some Dir then Inl IsADirectoryError
      else if \<not> is_dir fsys (parent p) then Inl FileNotFoundError
      else Inr (dict_set p (File c) fsys))"

definition load_yaml :: "content filesystem \<Rightarrow> pure_path \<Rightarrow> pyerror + cfg" where
  "load_yaml fsys p =
     (case map_of fsys p of
        Some (File (Yaml t)) \<Rightarrow> Inr t
      | Some (File Json) \<Rightarrow> Inl ValueError
      | Some Dir \<Rightarrow> Inl IsADirectoryError
      | None \<Rightarrow> Inl FileNotFoundError)"

section \<open>BaseBatchModel\<close>

text \<open>
  The entity: its name, its path and batch configurations, the live configuration
  \<^verbatim>\<open>_config_\<close> and the retained one \<^verbatim>\<open>_initial_config_\<close>. The project configuration and
  the secrets are outside the model.
\<close>

record batch_model =
  name :: "string option"
  path :: "path_config option"
  batch :: "batch_config option"
  config :: dictconfig
  initial_config :: dictconfig

text \<open>The keys \<^verbatim>\<open>save_config\<close> drops when it is given no list.\<close>

definition default_exclude :: "string list" where
  "default_exclude = [''_config_'', ''_initial_config_'', ''__data__'', ''path'', ''module'',
                      ''secret'', ''auto'', ''project'']"

definition PathConfig_init :: "(string \<times> cfg) list \<Rightarrow> world \<Rightarrow> pyerror + path_config" where
  "PathConfig_init data w =
     (let data1 = (if data = [] then items (compose w ''path=__batch__'') else data)
      in and_then (get_str data1 ''task_name'' ''default-task'') (\<lambda>v_task.
         and_then (get_opt_str data1 ''root'') (\<lambda>v_root.
         and_then (get_opt_str data1 ''batch_name'') (\<lambda>v_name.
         and_then (get_bool data1 ''verbose'' False) (\<lambda>v_verbose.
           Inr \<lparr>task_name = v_task, root = v_root, path_batch_name = v_name,
                path_verbose = v_verbose\<rparr>)))))"

subsection \<open>The setters behind attribute assignment\<close>

text \<open>
  \<^verbatim>\<open>__setattr__\<close> stores the value and then calls the method registered for the
  attribute in \<^verbatim>\<open>property_set_methods\<close>: an assignment to \<^verbatim>\<open>batch_num\<close>, \<^verbatim>\<open>batch_name\<close>
  (or \<^verbatim>\<open>name\<close>), \<^verbatim>\<open>output_dir\<close> or \<^verbatim>\<open>root_dir\<close> is the call of the setter below.
\<close>

definition set_output_dir :: "pure_path \<Rightarrow> batch_model \<Rightarrow> world \<Rightarrow> pyerror + batch_model \<times> world" where
  "set_output_dir val e w =
     and_then (set_nested ''batch'' ''output_dir'' (Leaf (PStr (path_str val))) (config e) w)
       (\<lambda>w1. case batch e of
                None \<Rightarrow> Inl AttributeError
              | Some b \<Rightarrow> Inr (e\<lparr>batch := Some (b\<lparr>output_dir := val\<rparr>)\<rparr>, w1))"

definition set_batch_num :: "int option \<Rightarrow> batch_model \<Rightarrow> world \<Rightarrow> pyerror + batch_model \<times> world" where
  "set_batch_num val e w =
     and_then (set_nested ''batch'' ''batch_num'' (Leaf (pyval_of_int val)) (config e) w)
       (\<lambda>w1. case batch e of
                None \<Rightarrow> Inl AttributeError
              | Some b \<Rightarrow> Inr (e\<lparr>batch := Some (b\<lparr>batch_num := val\<rparr>)\<rparr>, w1))"

text \<open>
  \<^verbatim>\<open>set_root_dir\<close>. A configuration without a path gets the composed default one; the
  assignment stores a copy, so the root is then set in the local value only.
\<close>

definition set_root_dir :: "string option \<Rightarrow> batch_model \<Rightarrow> world \<Rightarrow> pyerror + batch_model \<times> world" where
  "set_root_dir root_dir_arg e w =
     and_then
       (case map_of (config e) ''path'' of
          Some (Ref a) \<Rightarrow>
            (case heap w a of
               Leaf u \<Rightarrow> Inl TypeError
             | Dict kvs \<Rightarrow>
                 (case root_dir_arg of
                    None \<Rightarrow> Inr (kvs, e, w)
                  | Some r \<Rightarrow>
                      Inr (dict_set ''root'' (Leaf (PStr r)) kvs, e,
                           w\<lparr>heap := (heap w)(a := Dict (dict_set ''root'' (Leaf (PStr r)) kvs))\<rparr>)))
        | Some (Val (PStr s)) \<Rightarrow> Inl (if root_dir_arg = None then TypeError else AttributeError)
        | Some (Val (PInt i)) \<Rightarrow> Inl (if root_dir_arg = None then TypeError else AttributeError)
        | Some (Val (PBool b)) \<Rightarrow> Inl (if root_dir_arg = None then TypeError else AttributeError)
        | _ \<Rightarrow>
            (let kvs = items (compose w ''path=_batch_'');
                 w1 = w\<lparr>heap := (heap w)(next_addr w := Dict kvs),
                        next_addr := Suc (next_addr w)\<rparr>;
                 e1 = e\<lparr>config := dict_set ''path'' (Ref (next_addr w)) (config e)\<rparr>
             in case root_dir_arg of
                  None \<Rightarrow> Inr (kvs, e1, w1)
                | Some r \<Rightarrow> Inr (dict_set ''root'' (Leaf (PStr r)) kvs, e1, w1)))
       (\<lambda>(kvs, e1, w1).
     and_then (PathConfig_init kvs w1) (\<lambda>pc.
     and_then (PathConfig_output_dir pc) (\<lambda>out.
       set_output_dir out (e1\<lparr>path := Some pc\<rparr>) w1)))"

definition batch_kwargs :: "dictconfig \<Rightarrow> world \<Rightarrow> pyerror + (string \<times> cfg) list" where
  "batch_kwargs dc w =
     (case map_of dc ''batch'' of
        Some (Ref a) \<Rightarrow> (case heap w a of Dict kvs \<Rightarrow> Inr kvs | Leaf u \<Rightarrow> Inl TypeError)
      | _ \<Rightarrow> Inl TypeError)"

definition initialize_configs ::
  "string option \<Rightarrow> batch_model \<Rightarrow> world \<Rightarrow> pyerror + batch_model \<times> world" where
  "initialize_configs root_dir_arg e w =
     and_then (set_root_dir root_dir_arg e w) (\<lambda>(e1, w1).
     and_then (batch_kwargs (config e1) w1) (\<lambda>kvs.
     and_then (BaseBatchConfig_init kvs w1) (\<lambda>(b, w2).
       set_batch_num (batch_num b) (e1\<lparr>batch := Some b\<rparr>) w2)))"

text \<open>
  \<^verbatim>\<open>set_batch_name\<close>, lines 247 to 249, and the whole of it: when the name differs, the
  assignment \<^verbatim>\<open>self.name = val\<close> calls the setter once more (in that call the name is
  \<open>val\<close>), and the configurations are initialised in the inner and in the outer call.
\<close>

definition set_batch_name_fields ::
  "string \<Rightarrow> batch_model \<Rightarrow> world \<Rightarrow> pyerror + batch_model \<times> world" where
  "set_batch_name_fields val e w =
     and_then (set_nested ''batch'' ''batch_name'' (Leaf (PStr val)) (config e) w)
       (\<lambda>w1. case batch e of
                None \<Rightarrow> Inl AttributeError
              | Some b \<Rightarrow>
                  Inr (e\<lparr>config := dict_set ''name'' (Val (PStr val)) (config e),
                         batch := Some (b\<lparr>batch_name := val\<rparr>)\<rparr>, w1))"

definition set_batch_name :: "string \<Rightarrow> batch_model \<Rightarrow> world \<Rightarrow> pyerror + batch_model \<times> world" where
  "set_batch_name val e w =
     and_then (set_batch_name_fields val e w) (\<lambda>(e1, w1).
     and_then
       (if name e1 = None \<or> name e1 \<noteq> Some val
        then and_then (set_batch_name_fields val (e1\<lparr>name := Some val\<rparr>) w1)
               (\<lambda>(e2, w2). initialize_configs None e2 w2)
        else Inr (e1, w1))
       (\<lambda>(e3, w3). initialize_configs None e3 w3))"

subsection \<open>Construction\<close>

definition optional_model ::
  "(string \<times> cfg) list \<Rightarrow> string \<Rightarrow> ((string \<times> cfg) list \<Rightarrow> pyerror + 'a) \<Rightarrow> pyerror + 'a option" where
  "optional_model data k construct =
     (case map_of data k of
        None \<Rightarrow> Inr None
      | Some (Leaf PNone) \<Rightarrow> Inr None
      | Some (Dict kvs) \<Rightarrow> and_then (construct kvs) (\<lambda>x. Inr (Some x))
      | Some (Leaf v) \<Rightarrow> Inl ValidationError)"

definition BaseBatchModel_init ::
  "string option \<Rightarrow> string option \<Rightarrow> (string \<times> cfg) list \<Rightarrow> world
     \<Rightarrow> pyerror + batch_model \<times> world" where
  "BaseBatchModel_init config_group root_dir_arg args w =
     (let kvs = (case config_group of
                   None \<Rightarrow> args
                 | Some g \<Rightarrow> items (merge_cfg (compose w g) (Dict args)));
          (dc, w1) = to_config kvs w
      in and_then (get_required_str kvs ''name'') (\<lambda>v_name.
         and_then (optional_model kvs ''path'' (\<lambda>d. PathConfig_init d w1)) (\<lambda>v_path.
         and_then (optional_model kvs ''batch'' (\<lambda>d. BaseBatchConfig_init d w1)) (\<lambda>v_batch.
           initialize_configs root_dir_arg
             \<lparr>name = Some v_name, path = v_path, batch = map_option fst v_batch,
              config = dc, initial_config = DictConfig_copy dc\<rparr>
             (case v_batch of None \<Rightarrow> w1 | Some (b, w2) \<Rightarrow> w2)))))"

subsection \<open>Saving and loading\<close>

definition select_keys :: "string list \<Rightarrow> (string \<times> cfg) list \<Rightarrow> pyerror + (string \<times> cfg) list" where
  "select_keys ks kvs =
     foldl (\<lambda>acc k. and_then acc (\<lambda>sel.
              case map_of kvs k of None \<Rightarrow> Inl KeyError | Some v \<Rightarrow> Inr (dict_set k v sel)))
       (Inr []) ks"

definition drop_keys :: "string list \<Rightarrow> (string \<times> cfg) list \<Rightarrow> (string \<times> cfg) list" where
  "drop_keys ks kvs = filter (\<lambda>(k, v). k \<notin> set ks) kvs"

definition save_settings :: "batch_model \<Rightarrow> world \<Rightarrow> pyerror + world" where
  "save_settings e w =
     (case batch e of
        None \<Rightarrow> Inl AttributeError
      | Some b \<Rightarrow>
          and_then (config_jsonpath b w) (\<lambda>(p, w1).
          and_then (write_file (fs w1) p Json) (\<lambda>f. Inr (w1\<lparr>fs := f\<rparr>))))"

definition save_config ::
  "dictconfig option \<Rightarrow> string list option \<Rightarrow> string list option \<Rightarrow> batch_model \<Rightarrow> world
     \<Rightarrow> pyerror + string \<times> batch_model \<times> world" where
  "save_config config_arg exclude include e w =
     (let e1 = (case config_arg of None \<Rightarrow> e | Some c \<Rightarrow> e\<lparr>config := c\<rparr>);
          cfg = items (to_dict w (config e1));
          exclude1 = (case exclude of None \<Rightarrow> default_exclude | Some x \<Rightarrow> x)
      in and_then (case include of
                     Some (k # ks) \<Rightarrow> select_keys (k # ks) cfg
                   | _ \<Rightarrow> Inr (drop_keys exclude1 cfg)) (\<lambda>args.
         case batch e1 of
           None \<Rightarrow> Inl AttributeError
         | Some b \<Rightarrow>
             and_then (config_filepath b w) (\<lambda>(p, w1).
             and_then (write_file (fs w1) p (Yaml (Dict args))) (\<lambda>f.
             and_then (save_settings e1 (w1\<lparr>fs := f\<rparr>)) (\<lambda>w2.
               Inr (config_filename b, e1, w2))))))"

text \<open>
  \<^verbatim>\<open>load_config\<close>. The first part chooses the configuration to start from; the second
  merges the overrides into it and assigns the batch number and the batch name, through
  their setters.
\<close>

definition load_start ::
  "string \<Rightarrow> int option \<Rightarrow> batch_model \<Rightarrow> world
     \<Rightarrow> pyerror + dictconfig \<times> int option \<times> batch_model \<times> world" where
  "load_start batch_name_arg batch_num_arg e w =
     (case batch_num_arg of
        None \<Rightarrow> Inr (config e, None, e, w)
      | Some n \<Rightarrow>
          (case batch e of
             None \<Rightarrow> Inl AttributeError
           | Some b \<Rightarrow>
               (let cfg = DictConfig_copy (initial_config e);
                    b1 = b\<lparr>batch_name := batch_name_arg, batch_num := Some n\<rparr>;
                    e1 = e\<lparr>batch := Some b1\<rparr>
                in and_then (config_filepath b1 w) (\<lambda>(p, w1).
                     if is_file (fs w1) p
                     then and_then (load_yaml (fs w1) p) (\<lambda>batch_cfg.
                            let (cfg1, w2) = merge cfg batch_cfg w1
                            in Inr (cfg1, Some n, e1, w2))
                     else Inr (cfg, None, e1, w1)))))"

definition load_config ::
  "string option \<Rightarrow> int option \<Rightarrow> (string \<times> cfg) list \<Rightarrow> batch_model \<Rightarrow> world
     \<Rightarrow> pyerror + dictconfig \<times> batch_model \<times> world" where
  "load_config batch_name_arg batch_num_arg args e w =
     and_then (case batch_name_arg of
                 Some n \<Rightarrow> Inr n
               | None \<Rightarrow> (case batch e of None \<Rightarrow> Inl AttributeError
                                          | Some b \<Rightarrow> Inr (batch_name b))) (\<lambda>bname.
     and_then (load_start bname batch_num_arg e w) (\<lambda>(cfg, bnum, e1, w1).
       let (merged, w2) = merge cfg (Dict args) w1
       in and_then (set_batch_num bnum (e1\<lparr>config := merged\<rparr>) w2) (\<lambda>(e2, w3).
          and_then (set_batch_name bname e2 w3) (\<lambda>(e3, w4).
            Inr (config e3, e3, w4)))))"

text \<open>
  Trees compared as dictionaries are: \<open>subsumes t s\<close> when every key of \<open>s\<close> is a key of
  \<open>t\<close>, with the same leaf or, for a dictionary, a subsuming dictionary.
\<close>

fun subsumes :: "cfg \<Rightarrow> cfg \<Rightarrow> bool" where
  "subsumes t (Leaf v) = (t = Leaf v)"
| "subsumes t (Dict kvs) =
     (case t of
        Leaf u \<Rightarrow> False
      | Dict tkvs \<Rightarrow>
          list_all (\<lambda>kv. case map_of tkvs (fst kv) of
                            None \<Rightarrow> False
                          | Some t1 \<Rightarrow> subsumes t1 (snd kv)) kvs)"

text \<open>The keys of a dictionary are distinct, at every level.\<close>

fun wf_cfg :: "cfg \<Rightarrow> bool" where
  "wf_cfg (Leaf v) = True"
| "wf_cfg (Dict kvs) = (distinct (map fst kvs) \<and> list_all (\<lambda>kv. wf_cfg (snd kv)) kvs)"

text \<open>A dictionary with one key below a top-level key set, as the setters set it.\<close>

definition tree_set2 :: "string \<Rightarrow> string \<Rightarrow> cfg \<Rightarrow> cfg \<Rightarrow> cfg" where
  "tree_set2 k1 k2 v t =
     (case t of
        Leaf u \<Rightarrow> t
      | Dict kvs \<Rightarrow>
          (case map_of kvs k1 of
             Some (Dict d) \<Rightarrow> Dict (dict_set k1 (Dict (dict_set k2 v d)) kvs)
           | _ \<Rightarrow> t))"

definition tree_set :: "string \<Rightarrow> cfg \<Rightarrow> cfg \<Rightarrow> cfg" where
  "tree_set k v t = (case t of Leaf u \<Rightarrow> t | Dict kvs \<Rightarrow> Dict (dict_set k v kvs))"

definition restrict_keys :: "string list \<Rightarrow> cfg \<Rightarrow> cfg" where
  "restrict_keys ks t = (case t of Leaf u \<Rightarrow> t | Dict kvs \<Rightarrow> Dict (drop_keys ks kvs))"

section \<open>Example inputs\<close>

text \<open>The concrete worlds and arguments at which the theorems below are instantiated.\<close>

definition example_world :: world where
  "example_world = \<lparr>fs = [], cwd = Path ''/home/user'', compose = (\<lambda>g. Dict []),
     entropy = (\<lambda>k. 4294967295), drawn = 0, heap = (\<lambda>a. Dict []), next_addr = 0\<rparr>"

definition example_batch :: batch_config where
  "example_batch = \<lparr>batch_name = ''exp'', batch_num = Some 3,
     output_dir = PurePath ''/'' [''home'', ''user'', ''outputs''],
     output_suffix = None, output_extention = ''csv'', random_seed = False,
     seed = Some 42, resume_run = False, resume_latest = False,
     config_yaml = ''config.yaml'', config_json = ''config.json'',
     config_dirname = ''configs'', verbose = False\<rparr>"

definition example_data :: "(string \<times> cfg) list" where
  "example_data = [(''batch_name'', Leaf (PStr ''exp'')), (''batch_num'', Leaf (PInt 3)),
     (''output_extention'', Leaf (PStr ''..csv.'')), (''random_seed'', Leaf (PBool False)),
     (''seed'', Leaf (PInt 42))]"

definition random_data :: "(string \<times> cfg) list" where
  "random_data = [(''batch_name'', Leaf (PStr ''exp'')), (''batch_num'', Leaf (PInt 3)),
     (''random_seed'', Leaf (PBool True)), (''seed'', Leaf (PInt 42))]"

definition configs_path :: pure_path where
  "configs_path = PurePath ''/'' [''home'', ''user'', ''outputs'', ''exp'', ''configs'']"

definition saved_fs :: "content filesystem" where
  "saved_fs =
    [(PurePath ''/'' [''home''], Dir),
     (PurePath ''/'' [''home'', ''user''], Dir),
     (PurePath ''/'' [''home'', ''user'', ''outputs''], Dir),
     (PurePath ''/'' [''home'', ''user'', ''outputs'', ''exp''], Dir),
     (PurePath ''/'' [''home'', ''user'', ''outputs'', ''exp'', ''configs''], Dir),
     (PurePath ''/'' [''home'', ''user'', ''outputs'', ''exp'', ''configs'', ''exp(0)_config.yaml''],
        File (Yaml (Dict []))),
     (PurePath ''/'' [''home'', ''user'', ''outputs'', ''exp'', ''configs'', ''exp(0)_config.json''],
        File Json),
     (PurePath ''/'' [''home'', ''user'', ''outputs'', ''exp'', ''configs'', ''exp(1)_config.yaml''],
        File (Yaml (Dict []))),
     (PurePath ''/'' [''home'', ''user'', ''outputs'', ''exp'', ''configs'', ''other(0)_config.yaml''],
        File (Yaml (Dict [])))]"

definition saved_world :: world where
  "saved_world = example_world\<lparr>fs := saved_fs\<rparr>"

definition resume_data :: "(string \<times> cfg) list" where
  "resume_data = [(''batch_name'', Leaf (PStr ''exp'')), (''resume_latest'', Leaf (PBool True))]"

definition resume_batch :: batch_config where
  "resume_batch = \<lparr>batch_name = ''exp'', batch_num = None,
     output_dir = PurePath ''/'' [''home'', ''user'', ''outputs''],
     output_suffix = None, output_extention = [], random_seed = True,
     seed = None, resume_run = False, resume_latest = True,
     config_yaml = ''config.yaml'', config_json = ''config.json'',
     config_dirname = ''configs'', verbose = False\<rparr>"

definition example_path_config :: path_config where
  "example_path_config = \<lparr>task_name = ''default-task'', root = Some ''/home/user'',
     path_batch_name = Some ''exp'', path_verbose = False\<rparr>"

definition batch_dirs :: "content filesystem" where
  "batch_dirs = [(PurePath ''/'' [''home''], Dir),
                 (PurePath ''/'' [''home'', ''user''], Dir),
                 (PurePath ''/'' [''home'', ''user'', ''outputs''], Dir),
                 (PurePath ''/'' [''home'', ''user'', ''outputs'', ''exp''], Dir)]"

definition example_builder :: builder where
  "example_builder = \<lparr>db_name = ''corpus'', db_data_dir = Some ''/data'',
     data_filetype = ''.csv'',
     column_info = Dict [(''data'', Dict [(''text'', Leaf (PStr ''str''))])],
     db_verbose = False, fetch_sources = Some [(''train'', Some [''src.csv''])],
     overwrite = False, calculate_stats = False, preprocess_text = False,
     downloader = None, info_args = False, summary_info = False,
     pipeline_args = [], transform_pipeline = [], process_pipeline = []\<rparr>"

definition example_collab :: "string list build_collab" where
  "example_collab = \<lparr>run_downloader = (\<lambda>f. Inr f), run_downloader_pipeline = (\<lambda>f. Inr f),
     run_loader = (\<lambda>split f. Inr (None, f)),
     apply_pipeline = (\<lambda>df steps pa f. Inr (df, f)),
     load_dataframe = (\<lambda>p t f. Inr (Some [])),
     save_info = (\<lambda>f. Inr f)\<rparr>"

definition built_world :: "string list bworld" where
  "built_world = \<lparr>bfs = [(PurePath ''/'' [''data''], Dir),
                          (PurePath ''/'' [''data'', ''corpus-train.csv''], File [''row''])],
                   trace = []\<rparr>"

definition empty_bworld :: "string list bworld" where
  "empty_bworld = \<lparr>bfs = [], trace = []\<rparr>"

definition example_dataset_collab :: "string list dataset_collab" where
  "example_dataset_collab = \<lparr>read_dataframe = (\<lambda>p k f. Inr [path_str p]),
     run_pipeline = (\<lambda>df steps pa f. Inr (df, f))\<rparr>"

definition example_dataset :: "string list dataset" where
  "example_dataset = \<lparr>ds_data_dir = PurePath ''/'' [''data''],
     data_files = [(''train'', ''c-train.csv''), (''dev'', ''c-dev.csv'')],
     data_keys = Leaf PNone, ds_pipeline_args = [], ds_process_pipeline = [],
     splits = [], loaded = False\<rparr>"

definition loaded_dataset :: "string list dataset" where
  "loaded_dataset = example_dataset\<lparr>
     splits := [(''train'', [''/data/c-train.csv'']), (''dev'', [''/data/c-dev.csv''])],
     loaded := True\<rparr>"

section \<open>Basic facts\<close>

lemma and_then_Inr [simp]: "and_then (Inr x) f = f x"
  by (simp add: and_then_def)

lemma and_then_Inl [simp]: "and_then (Inl e) f = Inl e"
  by (simp add: and_then_def)

lemma and_then_eq_Inr: "and_then m f = Inr y \<longleftrightarrow> (\<exists>x. m = Inr x \<and> f x = Inr y)"
  by (cases m) simp_all

lemma last_dropWhile_nonempty: "dropWhile P xs \<noteq> [] \<Longrightarrow> last (dropWhile P xs) = last xs"
  by (induction xs) (auto split: if_splits)

lemma strip_dots_clean:
  "strip_dots s = [] \<or> (hd (strip_dots s) \<noteq> CHR ''.'' \<and> last (strip_dots s) \<noteq> CHR ''.'')"
proof (cases "strip_dots s = []")
  case True then show ?thesis by simp
next
  case False
  define ys where "ys = dropWhile (\<lambda>c. c = CHR ''.'') s"
  define zs where "zs = dropWhile (\<lambda>c. c = CHR ''.'') (rev ys)"
  have sd: "strip_dots s = rev zs" by (simp add: strip_dots_def ys_def zs_def)
  have z: "zs \<noteq> []" using False sd by simp
  then have hz: "hd zs \<noteq> CHR ''.''"
    using hd_dropWhile[of "\<lambda>c. c = CHR ''.''" "rev ys"] unfolding zs_def by simp
  have ys: "ys \<noteq> []" using z unfolding zs_def by auto
  then have hy: "hd ys \<noteq> CHR ''.''"
    using hd_dropWhile[of "\<lambda>c. c = CHR ''.''" s] unfolding ys_def by simp
  have "last zs = last (rev ys)" using z unfolding zs_def by (rule last_dropWhile_nonempty)
  then have "last zs = hd ys" using ys by (simp add: last_rev)
  then have "hd (strip_dots s) = hd ys" using z sd by (simp add: hd_rev)
  moreover have "last (strip_dots s) = hd zs" using z sd by (simp add: last_rev)
  ultimately show ?thesis using hy hz by simp
qed

lemma validate_fields_Inr:
  assumes "validate_fields data w = Inr (b, w')"
  shows "\<exists>v_name v_num v_dir v_suffix v_ext v_random v_seed v_run v_latest v_yaml v_json
           v_dirname v_verbose.
     get_required_str data ''batch_name'' = Inr v_name
   \<and> get_opt_int data ''batch_num'' = Inr v_num
   \<and> get_path data ''output_dir'' (joinpath (cwd w) ''outputs'') = Inr v_dir
   \<and> get_opt_str data ''output_suffix'' = Inr v_suffix
   \<and> get_opt_str data ''output_extention'' = Inr v_ext
   \<and> get_bool data ''random_seed'' True = Inr v_random
   \<and> get_opt_int data ''seed'' = Inr v_seed
   \<and> get_bool data ''resume_run'' False = Inr v_run
   \<and> get_bool data ''resume_latest'' False = Inr v_latest
   \<and> get_str data ''config_yaml'' ''config.yaml'' = Inr v_yaml
   \<and> get_str data ''config_json'' ''config.json'' = Inr v_json
   \<and> get_str data ''config_dirname'' ''configs'' = Inr v_dirname
   \<and> get_bool data ''verbose'' False = Inr v_verbose
   \<and> b = \<lparr>batch_name = v_name, batch_num = v_num, output_dir = v_dir,
            output_suffix = v_suffix,
            output_extention = output_extention_field data v_ext,
            random_seed = v_random,
            seed = fst (seed_field data v_seed v_random w),
            resume_run = v_run,
            resume_latest = v_latest, config_yaml = v_yaml, config_json = v_json,
            config_dirname = v_dirname, verbose = v_verbose\<rparr>
   \<and> w' = snd (seed_field data v_seed v_random w)"
  using assms unfolding validate_fields_def and_then_eq_Inr
  by auto

lemma seed_field_world:
  "fs (snd (seed_field data v rs w)) = fs w"
  "cwd (snd (seed_field data v rs w)) = cwd w"
  "compose (snd (seed_field data v rs w)) = compose w"
  "entropy (snd (seed_field data v rs w)) = entropy w"
  "heap (snd (seed_field data v rs w)) = heap w"
  "next_addr (snd (seed_field data v rs w)) = next_addr w"
  by (simp_all add: seed_field_def validate_seed_def)

lemma randint_range: "a \<le> b \<Longrightarrow> a \<le> randint a b r \<and> randint a b r \<le> b"
  unfolding randint_def
  using pos_mod_sign[of "b - a + 1" r] pos_mod_bound[of "b - a + 1" r] by linarith

lemma init_batch_num_fields:
  assumes "init_batch_num b w = Inr (b', w')"
  shows "b' = b\<lparr>batch_num := batch_num b'\<rparr> \<and> batch_num b' \<noteq> None
         \<and> drawn w' = drawn w \<and> entropy w' = entropy w"
  using assms unfolding init_batch_num_def config_dir_def batch_dir_def
  by (auto simp: and_then_eq_Inr Let_def split: option.splits if_splits)

section \<open>Facts about the file system\<close>

lemma mkdir_parts_keeps:
  "mkdir_parts fsys a pre xs = Inr f \<Longrightarrow> map_of fsys q = Some n \<Longrightarrow> map_of f q = Some n"
proof (induction xs arbitrary: fsys pre)
  case Nil
  then show ?case by simp
next
  case (Cons x xs)
  show ?case
  proof (cases "map_of fsys (PurePath a (pre @ [x]))")
    case None
    with Cons.prems have "mkdir_parts (fsys @ [(PurePath a (pre @ [x]), Dir)]) a (pre @ [x]) xs = Inr f"
      by simp
    moreover have "map_of (fsys @ [(PurePath a (pre @ [x]), Dir)]) q = Some n"
      using Cons.prems(2) by (simp add: map_add_Some_iff)
    ultimately show ?thesis by (rule Cons.IH)
  next
    case (Some node)
    with Cons.prems show ?thesis
      by (cases node) (auto intro: Cons.IH)
  qed
qed

lemma mkdir_parts_extends:
  "mkdir_parts fsys a pre xs = Inr f \<Longrightarrow>
   \<exists>new. f = fsys @ new \<and> (\<forall>e \<in> set new. length (parts (fst e)) \<le> length pre + length xs)"
proof (induction xs arbitrary: fsys pre)
  case Nil
  then show ?case by simp
next
  case (Cons x xs)
  show ?case
  proof (cases "map_of fsys (PurePath a (pre @ [x]))")
    case None
    with Cons.prems have "mkdir_parts (fsys @ [(PurePath a (pre @ [x]), Dir)]) a (pre @ [x]) xs = Inr f"
      by simp
    from Cons.IH[OF this] obtain new where
      "f = (fsys @ [(PurePath a (pre @ [x]), Dir)]) @ new"
      "\<forall>e \<in> set new. length (parts (fst e)) \<le> length (pre @ [x]) + length xs"
      by blast
    then have "f = fsys @ ((PurePath a (pre @ [x]), Dir) # new)
        \<and> (\<forall>e \<in> set ((PurePath a (pre @ [x]), Dir) # new).
              length (parts (fst e)) \<le> length pre + length (x # xs))"
      by auto
    then show ?thesis by blast
  next
    case (Some node)
    show ?thesis
    proof (cases node)
      case Dir
      with Some Cons.prems have "mkdir_parts fsys a (pre @ [x]) xs = Inr f" by simp
      from Cons.IH[OF this] show ?thesis by auto
    next
      case (File c)
      with Some Cons.prems show ?thesis by simp
    qed
  qed
qed

lemma mkdir_parts_dir:
  "mkdir_parts fsys a pre xs = Inr f \<Longrightarrow> 0 < k \<Longrightarrow> k \<le> length xs \<Longrightarrow>
   map_of f (PurePath a (pre @ take k xs)) = Some Dir"
proof (induction xs arbitrary: fsys pre k)
  case Nil
  then show ?case by simp
next
  case (Cons x xs)
  define fs1 where "fs1 = (case map_of fsys (PurePath a (pre @ [x])) of
      None \<Rightarrow> fsys @ [(PurePath a (pre @ [x]), Dir)] | Some n \<Rightarrow> fsys)"
  have step: "mkdir_parts fs1 a (pre @ [x]) xs = Inr f"
    using Cons.prems(1) unfolding fs1_def
    by (auto split: option.splits fnode.splits)
  have here: "map_of fs1 (PurePath a (pre @ [x])) = Some Dir"
    using Cons.prems(1) unfolding fs1_def
    by (auto split: option.splits fnode.splits simp: map_add_Some_iff)
  show ?case
  proof (cases "k = 1")
    case True
    then show ?thesis using mkdir_parts_keeps[OF step here] by simp
  next
    case False
    then obtain j where j: "k = Suc j" "0 < j" "j \<le> length xs"
      using Cons.prems(2,3) by (cases k) auto
    from Cons.IH[OF step j(2,3)] show ?thesis using j(1) by simp
  qed
qed

lemma mkdir_parts_again:
  "(\<And>k. 0 < k \<Longrightarrow> k \<le> length xs \<Longrightarrow> map_of f (PurePath a (pre @ take k xs)) = Some Dir)
   \<Longrightarrow> mkdir_parts f a pre xs = Inr f"
proof (induction xs arbitrary: pre)
  case Nil
  then show ?case by simp
next
  case (Cons x xs)
  have "map_of f (PurePath a (pre @ take 1 (x # xs))) = Some Dir"
    by (rule Cons.prems) simp_all
  then have here: "map_of f (PurePath a (pre @ [x])) = Some Dir" by simp
  have "mkdir_parts f a (pre @ [x]) xs = Inr f"
  proof (rule Cons.IH)
    fix k assume "0 < k" "k \<le> length xs"
    then have "map_of f (PurePath a (pre @ take (Suc k) (x # xs))) = Some Dir"
      by (intro Cons.prems) simp_all
    then show "map_of f (PurePath a ((pre @ [x]) @ take k xs)) = Some Dir" by simp
  qed
  with here show ?case by simp
qed

lemma mkdir_parts_succeeds:
  "(\<And>k. \<not> is_file fsys (PurePath a (pre @ take k xs))) \<Longrightarrow> \<exists>f. mkdir_parts fsys a pre xs = Inr f"
proof (induction xs arbitrary: fsys pre)
  case Nil
  then show ?case by simp
next
  case (Cons x xs)
  define fs1 where "fs1 = (case map_of fsys (PurePath a (pre @ [x])) of
      None \<Rightarrow> fsys @ [(PurePath a (pre @ [x]), Dir)] | Some n \<Rightarrow> fsys)"
  have nofile: "\<not> is_file fsys (PurePath a (pre @ [x]))"
    using Cons.prems[of 1] by simp
  have rest: "\<not> is_file fs1 (PurePath a ((pre @ [x]) @ take k xs))" for k
    using Cons.prems[of "Suc k"] unfolding fs1_def is_file_def
    by (auto split: option.splits fnode.splits simp: map_add_def)
  from Cons.IH[of fs1 "pre @ [x]", OF rest] obtain f where
    "mkdir_parts fs1 a (pre @ [x]) xs = Inr f" by blast
  then show ?case using nofile unfolding fs1_def is_file_def
    by (auto split: option.splits fnode.splits)
qed

lemma mkdir_is_dir: "mkdir fsys p = Inr f \<Longrightarrow> is_dir f p"
  using mkdir_parts_dir[of fsys "anchor p" "[]" "parts p" f "length (parts p)"]
  by (cases "parts p = []") (auto simp: mkdir_def is_dir_def)

lemma mkdir_again: "mkdir fsys p = Inr f \<Longrightarrow> mkdir f p = Inr f"
  unfolding mkdir_def by (rule mkdir_parts_again) (rule mkdir_parts_dir)

lemma mkdir_keeps_dirs: "mkdir fsys p = Inr f \<Longrightarrow> is_dir fsys q \<Longrightarrow> is_dir f q"
  unfolding mkdir_def is_dir_def by (auto dest: mkdir_parts_keeps)

lemma mkdir_keeps_files: "mkdir fsys p = Inr f \<Longrightarrow> map_of fsys q = Some n \<Longrightarrow> map_of f q = Some n"
  unfolding mkdir_def by (rule mkdir_parts_keeps)

lemma mkdir_succeeds:
  "(\<And>k. \<not> is_file fsys (PurePath (anchor p) (take k (parts p)))) \<Longrightarrow> \<exists>f. mkdir fsys p = Inr f"
  unfolding mkdir_def using mkdir_parts_succeeds[of fsys "anchor p" "[]" "parts p"] by simp

lemma mkdir_glob:
  assumes "mkdir fsys p = Inr f" and "length (parts p) \<le> length (parts d)"
  shows "glob f d pattern = glob fsys d pattern"
proof -
  from mkdir_parts_extends[OF assms(1)[unfolded mkdir_def]] obtain new where
    f: "f = fsys @ new" and n: "\<forall>e \<in> set new. length (parts (fst e)) \<le> length (parts p)"
    by auto
  have "\<not> glob_match d pats (fst e)" if "pats \<noteq> []" "e \<in> set new" for pats e
  proof -
    have "length (parts (fst e)) \<le> length (parts d)" using n assms(2) that(2) by force
    moreover have "0 < length pats" using that(1) by simp
    ultimately show ?thesis by (simp add: glob_match_def)
  qed
  then have "filter (glob_match d pats) (map fst new) = []" if "pats \<noteq> []" for pats
    using that by (auto simp: filter_empty_conv)
  then show ?thesis unfolding glob_def f by auto
qed

lemma mkdir_later_again:
  assumes "mkdir fsys p = Inr f" and "mkdir f q = Inr g"
  shows "mkdir g p = Inr g"
  unfolding mkdir_def
proof (rule mkdir_parts_again)
  fix k assume k: "0 < k" "k \<le> length (parts p)"
  from mkdir_parts_dir[OF assms(1)[unfolded mkdir_def] k]
  have "map_of f (PurePath (anchor p) ([] @ take k (parts p))) = Some Dir" .
  then show "map_of g (PurePath (anchor p) ([] @ take k (parts p))) = Some Dir"
    by (rule mkdir_parts_keeps[OF assms(2)[unfolded mkdir_def]])
qed

lemma world_fs_same [simp]: "w\<lparr>fs := fs w\<rparr> = (w :: world)"
  by simp

lemma batch_dir_Inr:
  "batch_dir b w = Inr (p, w') \<longleftrightarrow>
     p = joinpath (output_dir b) (batch_name b) \<and> (\<exists>f. mkdir (fs w) p = Inr f \<and> w' = w\<lparr>fs := f\<rparr>)"
  by (auto simp: batch_dir_def Let_def and_then_eq_Inr)

lemma config_dir_Inr:
  "config_dir b w = Inr (d, w') \<longleftrightarrow>
     d = joinpath (joinpath (output_dir b) (batch_name b)) (config_dirname b)
     \<and> (\<exists>f g. mkdir (fs w) (joinpath (output_dir b) (batch_name b)) = Inr f
            \<and> mkdir f d = Inr g \<and> w' = w\<lparr>fs := g\<rparr>)"
  by (auto simp: config_dir_def batch_dir_def Let_def and_then_eq_Inr)

section \<open>Facts about the dataset builder and the dataset\<close>

lemma raise_in_simps [simp]:
  "raise_in w (Inl e) = Inl (e, w)" "raise_in w (Inr x) = Inr x"
  by (simp_all add: raise_in_def)

lemma raise_in_eq_Inr: "raise_in w m = Inr x \<longleftrightarrow> m = Inr x"
  by (cases m) simp_all

lemma raise_in_eq_Inl: "raise_in w m = Inl (e, w') \<longleftrightarrow> m = Inl e \<and> w' = w"
  by (cases m) auto

lemma and_then_eq_Inl: "and_then m f = Inl e \<longleftrightarrow> m = Inl e \<or> (\<exists>x. m = Inr x \<and> f x = Inl e)"
  by (cases m) simp_all

lemma emit_simps [simp]: "trace (emit ev w) = trace w @ [ev]" "bfs (emit ev w) = bfs w"
  by (simp_all add: emit_def)

lemma loader_calls_simps [simp]:
  "loader_calls [] = []"
  "loader_calls (xs @ ys) = loader_calls xs @ loader_calls ys"
  "loader_calls (LoaderCalled s # xs) = s # loader_calls xs"
  "loader_calls (Logged m # xs) = loader_calls xs"
  "loader_calls (DataframeLoaded p # xs) = loader_calls xs"
  "loader_calls (PipelineApplied ps # xs) = loader_calls xs"
  "loader_calls (StatsCalculated s # xs) = loader_calls xs"
  "loader_calls (StatsInitialised s hm # xs) = loader_calls xs"
  "loader_calls (InfoLoaded # xs) = loader_calls xs"
  "loader_calls (InfoSaved # xs) = loader_calls xs"
  "loader_calls (DownloaderRun # xs) = loader_calls xs"
  "loader_calls (DownloaderPipelineRun # xs) = loader_calls xs"
  by (simp_all add: loader_calls_def)

lemma world_of_simps [simp]: "world_of (Inl (e, w)) = w" "world_of (Inr (x, w)) = w"
  by (simp_all add: world_of_def)

lemma register_fields:
  "db_name (register_save_metadata b out s) = db_name b"
  "data_filetype (register_save_metadata b out s) = data_filetype b"
  "db_data_dir (register_save_metadata b out s) = db_data_dir b"
  "overwrite (register_save_metadata b out s) = overwrite b"
  "calculate_stats (register_save_metadata b out s) = calculate_stats b"
  "preprocess_text (register_save_metadata b out s) = preprocess_text b"
  "summary_info (register_save_metadata b out s) = summary_info b"
  "fetch_sources (register_save_metadata b out s) = fetch_sources b"
  "column_info (register_save_metadata b out s) = column_info b"
  "db_name (register_save_samples b out s) = db_name b"
  "data_filetype (register_save_samples b out s) = data_filetype b"
  "db_data_dir (register_save_samples b out s) = db_data_dir b"
  "overwrite (register_save_samples b out s) = overwrite b"
  "calculate_stats (register_save_samples b out s) = calculate_stats b"
  "preprocess_text (register_save_samples b out s) = preprocess_text b"
  "summary_info (register_save_samples b out s) = summary_info b"
  "fetch_sources (register_save_samples b out s) = fetch_sources b"
  "column_info (register_save_samples b out s) = column_info b"
  by (simp_all add: register_save_metadata_def register_save_samples_def)

lemma register_save_dataframe_fields:
  "register_save_dataframe b out s = Inr b1 \<Longrightarrow>
     db_name b1 = db_name b \<and> data_filetype b1 = data_filetype b
     \<and> db_data_dir b1 = db_data_dir b \<and> overwrite b1 = overwrite b
     \<and> calculate_stats b1 = calculate_stats b \<and> preprocess_text b1 = preprocess_text b
     \<and> summary_info b1 = summary_info b \<and> fetch_sources b1 = fetch_sources b"
  by (auto simp: register_save_dataframe_def and_then_eq_Inr split: if_splits)

lemma split_setup_Inr:
  assumes "split_setup b split w = Inr (b1, w1, out)"
  shows "db_data_dir b = Some (the (db_data_dir b)) \<and> out = Path (the (db_data_dir b))
     \<and> db_name b1 = db_name b \<and> data_filetype b1 = data_filetype b
     \<and> db_data_dir b1 = db_data_dir b \<and> overwrite b1 = overwrite b
     \<and> calculate_stats b1 = calculate_stats b \<and> preprocess_text b1 = preprocess_text b
     \<and> summary_info b1 = summary_info b \<and> fetch_sources b1 = fetch_sources b
     \<and> trace w1 = trace w
     \<and> (bfs w1 = bfs w \<or> mkdir (bfs w) out = Inr (bfs w1))"
  using assms unfolding split_setup_def
  by (auto simp: and_then_eq_Inr raise_in_eq_Inr register_fields
      split: option.splits if_splits dest!: register_save_dataframe_fields)

lemma split_setup_Inl:
  assumes "split_setup b split w = Inl (e, w1)"
  shows "trace w1 = trace w"
  using assms unfolding split_setup_def
  by (auto simp: and_then_eq_Inl and_then_eq_Inr raise_in_eq_Inl raise_in_eq_Inr
      split: option.splits if_splits)

lemma fetch_split_skip:
  assumes "exists_path (bfs w) (split_output_file b out split)" and "\<not> overwrite b"
  shows "\<exists>r. world_of (fetch_split c b split out w) = r \<and> bfs r = bfs w \<and>
     trace r = trace w @ Logged (path_str (split_output_file b out split) @ '' already exists'')
        # (if calculate_stats b \<or> preprocess_text b
           then [DataframeLoaded (split_output_file b out split)] else [])"
  using assms unfolding fetch_split_def
  by (cases "load_dataframe c (split_output_file b out split) (data_filetype b) (bfs w)")
     (auto simp: Let_def)

lemma fetch_split_skip_cases:
  assumes "exists_path (bfs w) (split_output_file b out split)" and "\<not> overwrite b"
  shows "(\<exists>e w'. fetch_split c b split out w = Inl (e, w'))
       \<or> (\<exists>r w'. fetch_split c b split out w = Inr (r, w'))"
  by (cases "fetch_split c b split out w") auto

lemma finish_split_trace:
  "\<exists>rest. trace (world_of (finish_split c b split r w)) = trace w @ rest
      \<and> loader_calls rest = [] \<and> (\<forall>p. DataframeLoaded p \<notin> set rest)"
proof (cases r)
  case None
  then show ?thesis by (simp add: finish_split_def)
next
  case (Some df)
  show ?thesis
  proof (cases "process_pipeline b = []")
    case True
    then show ?thesis using Some by (simp add: finish_split_def)
  next
    case False
    then show ?thesis using Some
      by (cases "apply_pipeline c df (process_pipeline b) (pipeline_args b) (bfs w)")
         (auto simp: Let_def finish_split_def)
  qed
qed

lemma finish_split_Inr:
  assumes "finish_split c b split r w = Inr (b1, w1)"
  shows "b1 = b \<and> (bfs w1 = bfs w
      \<or> (\<exists>df steps pa df'. apply_pipeline c df steps pa (bfs w) = Inr (df', bfs w1)))"
  using assms unfolding finish_split_def
  by (auto simp: and_then_eq_Inr raise_in_eq_Inr Let_def split: option.splits if_splits)

lemma fetch_split_Inr:
  assumes "fetch_split c b split out w = Inr (r, w1)"
  shows "bfs w1 = bfs w
      \<or> (\<exists>r' f. run_loader c split (bfs w) = Inr (r', f)
            \<and> (bfs w1 = f \<or> (\<exists>df steps pa df'. apply_pipeline c df steps pa f = Inr (df', bfs w1))))"
  using assms unfolding fetch_split_def
  by (auto simp: and_then_eq_Inr raise_in_eq_Inr Let_def split: option.splits if_splits)

lemma mkdir_keeps_paths:
  "mkdir f p = Inr f' \<Longrightarrow> exists_path f q \<Longrightarrow> exists_path f' q"
  unfolding exists_path_def using mkdir_keeps_files[of f p f' q] by auto

lemma split_setup_keeps_paths:
  assumes "split_setup b split w = Inr (b1, w1, out)" and "exists_path (bfs w) q"
  shows "exists_path (bfs w1) q"
  using split_setup_Inr[OF assms(1)] assms(2) mkdir_keeps_paths by metis

lemma process_split_Inr:
  assumes "process_split c b split w = Inr (b1, w1)"
  shows "db_name b1 = db_name b \<and> data_filetype b1 = data_filetype b
     \<and> db_data_dir b1 = db_data_dir b \<and> overwrite b1 = overwrite b
     \<and> (keeps_paths c \<longrightarrow> (\<forall>q. exists_path (bfs w) q \<longrightarrow> exists_path (bfs w1) q))"
proof -
  from assms obtain b2 w2 out r w3 where
    s: "split_setup b split w = Inr (b2, w2, out)" and
    f: "fetch_split c b2 split out w2 = Inr (r, w3)" and
    n: "finish_split c b2 split r w3 = Inr (b1, w1)"
    unfolding process_split_def by (auto simp: and_then_eq_Inr)
  have b: "b1 = b2" using finish_split_Inr[OF n] by simp
  have keep: "exists_path (bfs w1) q" if k: "keeps_paths c" and q: "exists_path (bfs w) q" for q
  proof -
    have 2: "exists_path (bfs w2) q" using split_setup_keeps_paths[OF s q] .
    have 3: "exists_path (bfs w3) q"
      using fetch_split_Inr[OF f] 2 k unfolding keeps_paths_def by metis
    show ?thesis using finish_split_Inr[OF n] 3 k unfolding keeps_paths_def by metis
  qed
  show ?thesis using split_setup_Inr[OF s] b keep by auto
qed

lemma process_split_skip:
  assumes "db_data_dir b = Some dd"
      and "exists_path (bfs w) (split_output_file b (Path dd) split)"
      and "\<not> overwrite b"
  shows "loader_calls (trace (world_of (process_split c b split w))) = loader_calls (trace w)
     \<and> (\<forall>b1 w1 out. split_setup b split w = Inr (b1, w1, out) \<longrightarrow>
          (\<exists>rest. trace (world_of (process_split c b split w)) =
              trace w @ Logged (path_str (split_output_file b (Path dd) split) @ '' already exists'')
                # (if calculate_stats b \<or> preprocess_text b
                   then [DataframeLoaded (split_output_file b (Path dd) split)] else [])
                @ rest
             \<and> loader_calls rest = [] \<and> (\<forall>p. DataframeLoaded p \<notin> set rest)))"
proof (cases "split_setup b split w")
  case (Inl ew)
  obtain e w1 where "ew = (e, w1)" by (cases ew)
  with Inl have "process_split c b split w = Inl (e, w1)" "trace w1 = trace w"
    using split_setup_Inl[of b split w e w1] by (simp_all add: process_split_def)
  then show ?thesis using Inl by simp
next
  case (Inr t)
  obtain b1 w1 out where t: "t = (b1, w1, out)" by (cases t)
  with Inr have s: "split_setup b split w = Inr (b1, w1, out)" by simp
  note fields = split_setup_Inr[OF s]
  have out: "out = Path dd" using fields assms(1) by simp
  have same: "split_output_file b1 out split = split_output_file b (Path dd) split"
    using fields out by (simp add: split_output_file_def)
  have ex: "exists_path (bfs w1) (split_output_file b1 out split)"
    unfolding same using split_setup_keeps_paths[OF s assms(2)] .
  have ov: "\<not> overwrite b1" using fields assms(3) by simp
  from fetch_split_skip[OF ex ov, of c] have
    ft: "trace (world_of (fetch_split c b1 split out w1)) =
       trace w @ Logged (path_str (split_output_file b (Path dd) split) @ '' already exists'')
        # (if calculate_stats b \<or> preprocess_text b
           then [DataframeLoaded (split_output_file b (Path dd) split)] else [])"
    using fields same by simp
  have "\<exists>rest. trace (world_of (process_split c b split w)) =
              trace w @ Logged (path_str (split_output_file b (Path dd) split) @ '' already exists'')
                # (if calculate_stats b \<or> preprocess_text b
                   then [DataframeLoaded (split_output_file b (Path dd) split)] else [])
                @ rest
             \<and> loader_calls rest = [] \<and> (\<forall>p. DataframeLoaded p \<notin> set rest)"
  proof (cases "fetch_split c b1 split out w1")
    case (Inl ew)
    obtain e w2 where "ew = (e, w2)" by (cases ew)
    with Inl have "process_split c b split w = Inl (e, w2)"
      using s by (simp add: process_split_def)
    then show ?thesis using ft Inl \<open>ew = (e, w2)\<close> by simp
  next
    case (Inr rw)
    obtain r w2 where rw: "rw = (r, w2)" by (cases rw)
    with Inr have p: "process_split c b split w = finish_split c b1 split r w2"
      using s by (simp add: process_split_def)
    from finish_split_trace[of c b1 split r w2] obtain rest where
      "trace (world_of (finish_split c b1 split r w2)) = trace w2 @ rest"
      "loader_calls rest = []" "\<forall>p. DataframeLoaded p \<notin> set rest" by blast
    then show ?thesis using ft Inr rw p by simp
  qed
  then show ?thesis using s by (auto simp del: append_Cons simp add: loader_calls_simps)
qed

lemma process_splits_skip:
  assumes "keeps_paths c" and "\<not> overwrite b" and "db_data_dir b = Some dd"
      and "\<forall>s \<in> fst ` set sources. exists_path (bfs w) (split_output_file b (Path dd) s)"
  shows "loader_calls (trace (world_of (process_splits c b sources w))) = loader_calls (trace w)"
  using assms
proof (induction sources arbitrary: b w)
  case Nil
  then show ?case by simp
next
  case (Cons x sources)
  obtain split source where x: "x = (split, source)" by (cases x)
  show ?case
  proof (cases source)
    case None
    then show ?thesis using Cons x by simp
  next
    case (Some src)
    have here: "exists_path (bfs w) (split_output_file b (Path dd) split)"
      using Cons.prems(4) x by simp
    note skip = process_split_skip[OF Cons.prems(3) here Cons.prems(2), of c, THEN conjunct1]
    show ?thesis
    proof (cases "process_split c b split w")
      case (Inl ew)
      then have "process_splits c b (x # sources) w = Inl ew" using x Some by simp
      moreover obtain e w1 where "ew = (e, w1)" by (cases ew)
      ultimately show ?thesis using skip Inl by simp
    next
      case (Inr bw)
      obtain b1 w1 where bw: "bw = (b1, w1)" by (cases bw)
      with Inr have p: "process_split c b split w = Inr (b1, w1)" by simp
      note f = process_split_Inr[OF p]
      have same: "split_output_file b1 (Path dd) s = split_output_file b (Path dd) s" for s
        using f by (simp add: split_output_file_def)
      have "loader_calls (trace (world_of (process_splits c b1 sources w1))) = loader_calls (trace w1)"
      proof (rule Cons.IH[OF Cons.prems(1)])
        show "\<not> overwrite b1" using f Cons.prems(2) by simp
        show "db_data_dir b1 = Some dd" using f Cons.prems(3) by simp
        show "\<forall>s \<in> fst ` set sources. exists_path (bfs w1) (split_output_file b1 (Path dd) s)"
          unfolding same using f Cons.prems(1,4) by auto
      qed
      then show ?thesis using skip p x Some by simp
    qed
  qed
qed

lemma keeps_pathsD:
  assumes "keeps_paths c" and "exists_path f p"
  shows "run_downloader c f = Inr f' \<Longrightarrow> exists_path f' p"
    and "run_downloader_pipeline c f = Inr f' \<Longrightarrow> exists_path f' p"
    and "apply_pipeline c df steps pa f = Inr (df', f') \<Longrightarrow> exists_path f' p"
    and "run_loader c split f = Inr (r, f') \<Longrightarrow> exists_path f' p"
  using assms unfolding keeps_paths_def by blast+

lemma run_downloader_step:
  assumes "(if t then (let w1 = emit DownloaderRun w
                     in and_then (raise_in w1 (run_downloader c (bfs w1)))
                          (\<lambda>f. Inr (w1\<lparr>bfs := f\<rparr>)))
               else Inr w) = Inr w2"
  shows "loader_calls (trace w2) = loader_calls (trace w)
       \<and> (keeps_paths c \<longrightarrow> (\<forall>q. exists_path (bfs w) q \<longrightarrow> exists_path (bfs w2) q))"
proof (cases t)
  case True
  with assms obtain f where "run_downloader c (bfs w) = Inr f" "w2 = (emit DownloaderRun w)\<lparr>bfs := f\<rparr>"
    by (auto simp: and_then_eq_Inr raise_in_eq_Inr Let_def)
  then show ?thesis using keeps_pathsD(1)[of c "bfs w" _ f] by simp
next
  case False
  with assms show ?thesis by simp
qed

lemma run_downloader_pipeline_step:
  assumes "(if p then (let w3 = emit DownloaderPipelineRun w2
                           in and_then (raise_in w3 (run_downloader_pipeline c (bfs w3)))
                                (\<lambda>f. Inr (w3\<lparr>bfs := f\<rparr>)))
                     else Inr w2) = Inr w4"
  shows "loader_calls (trace w4) = loader_calls (trace w2)
       \<and> (keeps_paths c \<longrightarrow> (\<forall>q. exists_path (bfs w2) q \<longrightarrow> exists_path (bfs w4) q))"
proof (cases p)
  case True
  with assms obtain f where "run_downloader_pipeline c (bfs w2) = Inr f"
      "w4 = (emit DownloaderPipelineRun w2)\<lparr>bfs := f\<rparr>"
    by (auto simp: and_then_eq_Inr raise_in_eq_Inr Let_def)
  then show ?thesis using keeps_pathsD(2)[of c "bfs w2" _ f] by simp
next
  case False
  with assms show ?thesis by simp
qed

lemma run_downloads_Inr:
  assumes "run_downloads c b w = Inr w4"
  shows "loader_calls (trace w4) = loader_calls (trace w)
     \<and> (keeps_paths c \<longrightarrow> (\<forall>q. exists_path (bfs w) q \<longrightarrow> exists_path (bfs w4) q))"
proof (cases "downloader b")
  case None
  then show ?thesis using assms by (simp add: run_downloads_def)
next
  case (Some tp)
  obtain t p where tp: "tp = (t, p)" by (cases tp)
  from assms Some tp obtain w2 where
    1: "(if t then (let w1 = emit DownloaderRun w
                     in and_then (raise_in w1 (run_downloader c (bfs w1)))
                          (\<lambda>f. Inr (w1\<lparr>bfs := f\<rparr>)))
               else Inr w) = Inr w2" and
    2: "(if p then (let w3 = emit DownloaderPipelineRun w2
                           in and_then (raise_in w3 (run_downloader_pipeline c (bfs w3)))
                                (\<lambda>f. Inr (w3\<lparr>bfs := f\<rparr>)))
                     else Inr w2) = Inr w4"
    by (simp add: run_downloads_def and_then_eq_Inr) blast
  show ?thesis using run_downloader_step[OF 1] run_downloader_pipeline_step[OF 2] by simp
qed

lemma run_downloads_Inl:
  assumes "run_downloads c b w = Inl (e, w1)"
  shows "loader_calls (trace w1) = loader_calls (trace w)"
  using assms unfolding run_downloads_def
  by (auto simp: and_then_eq_Inl and_then_eq_Inr raise_in_eq_Inl raise_in_eq_Inr Let_def
      split: option.splits if_splits prod.splits)

lemma build_start_Inr:
  assumes "build_start c b w = Inr (b1, w1)"
  shows "db_name b1 = db_name b \<and> data_filetype b1 = data_filetype b
     \<and> db_data_dir b1 = db_data_dir b \<and> overwrite b1 = overwrite b
     \<and> fetch_sources b1 = fetch_sources b
     \<and> loader_calls (trace w1) = loader_calls (trace w)
     \<and> (keeps_paths c \<longrightarrow> (\<forall>q. exists_path (bfs w) q \<longrightarrow> exists_path (bfs w1) q))"
proof -
  from assms obtain w4 where
    d: "run_downloads c b w = Inr w4" and
    r: "b1 = (if info_args b then b\<lparr>summary_info := True\<rparr> else b)"
       "w1 = emit InfoLoaded w4 \<or> w1 = w4"
    by (auto simp: build_start_def and_then_eq_Inr Let_def split: if_splits)
  show ?thesis using r run_downloads_Inr[OF d] by auto
qed

lemma build_start_Inl:
  assumes "build_start c b w = Inl (e, w1)"
  shows "loader_calls (trace w1) = loader_calls (trace w)"
proof -
  from assms have "run_downloads c b w = Inl (e, w1)"
    unfolding build_start_def by (auto simp: and_then_eq_Inl Let_def split: if_splits)
  then show ?thesis by (rule run_downloads_Inl)
qed

lemma process_splits_append:
  "process_splits c b (xs @ ys) w =
     and_then (process_splits c b xs w) (\<lambda>(b1, w1). process_splits c b1 ys w1)"
proof (induction xs arbitrary: b w)
  case Nil
  then show ?case by simp
next
  case (Cons x xs)
  obtain split source where x: "x = (split, source)" by (cases x)
  show ?case
  proof (cases source)
    case None
    then show ?thesis using Cons x by simp
  next
    case (Some src)
    then show ?thesis using Cons x
      by (cases "process_split c b split w") auto
  qed
qed

lemma dataframe_reads_simps [simp]:
  "dataframe_reads [] = []"
  "dataframe_reads (xs @ ys) = dataframe_reads xs @ dataframe_reads ys"
  "dataframe_reads (DataframeLoaded p # xs) = p # dataframe_reads xs"
  "dataframe_reads (PipelineApplied ps # xs) = dataframe_reads xs"
  by (simp_all add: dataframe_reads_def)

lemma dict_set_keys: "fst ` set (dict_set k v kvs) = insert k (fst ` set kvs)"
proof (induction kvs)
  case Nil
  then show ?case by simp
next
  case (Cons x kvs)
  obtain k' v' where x: "x = (k', v')" by (cases x)
  show ?case
  proof (cases "k' = k")
    case True
    then show ?thesis using x by auto
  next
    case False
    then have "fst ` set (dict_set k v (x # kvs)) = insert k' (fst ` set (dict_set k v kvs))"
      using x by simp
    also have "\<dots> = insert k' (insert k (fst ` set kvs))" using Cons.IH by simp
    finally show ?thesis using x by auto
  qed
qed

lemma load_files_Inr:
  "load_files c d files w = Inr (d', w') \<Longrightarrow>
     dataframe_reads (trace w') =
       dataframe_reads (trace w) @ map (\<lambda>(s, f). joinpath (ds_data_dir d) f) files
     \<and> ds_data_dir d' = ds_data_dir d \<and> data_files d' = data_files d
     \<and> loaded d' = loaded d
     \<and> fst ` set files \<union> fst ` set (splits d) \<subseteq> fst ` set (splits d')"
proof (induction files arbitrary: d w)
  case Nil
  then show ?case by simp
next
  case (Cons x files)
  obtain split data_file where x: "x = (split, data_file)" by (cases x)
  define p where "p = joinpath (ds_data_dir d) data_file"
  from Cons.prems x obtain df df1 w3 where
    rd: "read_dataframe c p (data_keys d) (bfs w) = Inr df" and
    pl: "(if ds_process_pipeline d \<noteq> []
            then (let w2 = emit (PipelineApplied (ds_process_pipeline d)) (emit (DataframeLoaded p) w)
                  in and_then
                       (raise_in w2 (run_pipeline c df (ds_process_pipeline d)
                                       (ds_pipeline_args d) (bfs w2)))
                       (\<lambda>(df1, f1). Inr (df1, w2\<lparr>bfs := f1\<rparr>)))
            else Inr (df, emit (DataframeLoaded p) w)) = Inr (df1, w3)" and
    rest: "load_files c (d\<lparr>splits := dict_set split df1 (splits d)\<rparr>) files w3 = Inr (d', w')"
    unfolding p_def by (auto simp: Let_def and_then_eq_Inr raise_in_eq_Inr)
  have t3: "dataframe_reads (trace w3) = dataframe_reads (trace w) @ [p]"
    using pl by (auto simp: Let_def and_then_eq_Inr raise_in_eq_Inr split: if_splits)
  from Cons.IH[OF rest] show ?case
    using t3 x by (auto simp: p_def dict_set_keys)
qed

section \<open>The derived output file name (C10)\<close>

lemma example_init:
  "BaseBatchConfig_init example_data example_world = Inr (example_batch, example_world)"
  by (simp add: BaseBatchConfig_init_def example_data_def validate_fields_def get_str_def
      get_required_str_def get_opt_str_def get_opt_int_def get_bool_def get_path_def
      seed_field_def output_extention_field_def validate_output_extention_def
      validate_seed_def strip_dots_def init_batch_num_def example_batch_def example_world_def
      joinpath_def Path_def splitroot_def)

text \<open>
  Claim C10. A configuration constructed with no output suffix has the output file
  \<open>batch_name(batch_num).extension\<close>: the separator dot is always there, the extension
  is the supplied one with every leading and trailing dot stripped, and with no
  extension (absent, \<^verbatim>\<open>None\<close> or empty) the name ends in the dot.
\<close>

theorem output_file_separator_dot:
  assumes "BaseBatchConfig_init data w = Inr (b, w')"
      and "data \<noteq> []"
      and "unset_str (map_of data ''output_suffix'')"
  shows "\<exists>n. batch_num b = Some n
          \<and> output_file b = batch_name b @ ''('' @ str_int n @ '').'' @ output_extention b
          \<and> output_extention b =
              (case map_of data ''output_extention'' of
                 Some (Leaf (PStr e)) \<Rightarrow> strip_dots e | _ \<Rightarrow> [])
          \<and> (output_extention b = []
              \<or> (hd (output_extention b) \<noteq> CHR ''.'' \<and> last (output_extention b) \<noteq> CHR ''.''))
          \<and> (unset_str (map_of data ''output_extention'')
              \<longrightarrow> output_file b = batch_name b @ ''('' @ str_int n @ '').'')"
proof -
  from assms(1,2) obtain b0 w0 where
    v: "validate_fields data w = Inr (b0, w0)" and i: "init_batch_num b0 w0 = Inr (b, w')"
    by (auto simp: BaseBatchConfig_init_def and_then_eq_Inr)
  from init_batch_num_fields[OF i] obtain n where
    n: "batch_num b = Some n" and b: "b = b0\<lparr>batch_num := Some n\<rparr>"
    by auto
  from validate_fields_Inr[OF v] obtain v_suffix v_ext where
    s: "get_opt_str data ''output_suffix'' = Inr v_suffix" "output_suffix b0 = v_suffix" and
    e: "get_opt_str data ''output_extention'' = Inr v_ext"
       "output_extention b0 = output_extention_field data v_ext"
    by auto
  have suffix: "output_suffix b = None \<or> output_suffix b = Some []"
    using s assms(3) b
    by (auto simp: get_opt_str_def unset_str_def split: option.splits cfg.splits pyval.splits)
  have ext: "output_extention b =
      (case map_of data ''output_extention'' of Some (Leaf (PStr e)) \<Rightarrow> strip_dots e | _ \<Rightarrow> [])"
    using e b
    by (auto simp: get_opt_str_def output_extention_field_def validate_output_extention_def
          strip_dots_def split: option.splits cfg.splits pyval.splits)
  have ofile: "output_file b = batch_name b @ ''('' @ str_int n @ '').'' @ output_extention b"
    using suffix n by (auto simp: output_file_def batch_file_prefix_def str_opt_int_def)
  have clean: "output_extention b = []
      \<or> (hd (output_extention b) \<noteq> CHR ''.'' \<and> last (output_extention b) \<noteq> CHR ''.'')"
    unfolding ext using strip_dots_clean
    by (auto split: option.splits cfg.splits pyval.splits)
  have empty: "unset_str (map_of data ''output_extention'') \<Longrightarrow> output_extention b = []"
    unfolding ext by (auto simp: unset_str_def strip_dots_def)
  show ?thesis using n ofile ext clean empty by auto
qed

theorem output_file_separator_dot_witness:
  "BaseBatchConfig_init example_data example_world = Inr (example_batch, example_world)
   \<and> example_data \<noteq> []
   \<and> unset_str (map_of example_data ''output_suffix'')
   \<and> output_file example_batch = ''exp(3).csv''
   \<and> output_extention example_batch = strip_dots ''..csv.''"
proof -
  have u: "unset_str (map_of example_data ''output_suffix'')"
    by (simp add: unset_str_def example_data_def)
  have d: "example_data \<noteq> []" by (simp add: example_data_def)
  have n: "batch_num example_batch = Some 3" "batch_name example_batch = ''exp''"
    "output_extention example_batch = ''csv''"
    by (simp_all add: example_batch_def)
  have s: "str_int 3 = ''3''" by (simp add: str_int_def digit_def)
  have e: "map_of example_data ''output_extention'' = Some (Leaf (PStr ''..csv.''))"
    by (simp add: example_data_def)
  from output_file_separator_dot[OF example_init d u]
  show ?thesis using example_init d u n s e by auto
qed

section \<open>Seed resolution (C4)\<close>

text \<open>
  Claim C4, as stated, puts a generated seed in the half-open range
  \<open>[0, 2 ^ 32 - 1)\<close>. \<^verbatim>\<open>random.randint(0, 2**32 - 1)\<close> includes its upper bound: with
  the entropy below the constructor returns the seed \<open>2 ^ 32 - 1\<close>.
\<close>

theorem seed_half_open_range_counterexample:
  "map_sum id (seed \<circ> fst) (BaseBatchConfig_init random_data example_world)
     = Inr (Some 4294967295)
   \<and> \<not> ((4294967295 :: int) < 2 ^ 32 - 1)"
  by (simp add: BaseBatchConfig_init_def random_data_def validate_fields_def get_str_def
      get_required_str_def get_opt_str_def get_opt_int_def get_bool_def get_path_def
      seed_field_def output_extention_field_def validate_output_extention_def
      validate_seed_def randint_def init_batch_num_def example_world_def)

text \<open>
  Claim C4, amended. For a seed value supplied to the constructor (an integer or
  \<^verbatim>\<open>None\<close>): when \<^verbatim>\<open>random_seed\<close> is false and the seed is a non-negative integer, the
  resolved seed is that integer and nothing is drawn; in every other case exactly one
  number is drawn and the seed lies in the closed range \<open>[0, 2 ^ 32 - 1]\<close>. The seed
  does not change when the batch number is initialised again.
\<close>

theorem seed_resolution_closed_range:
  assumes "BaseBatchConfig_init data w = Inr (b, w')"
      and "data \<noteq> []"
      and "map_of data ''seed'' \<noteq> None"
      and "get_opt_int data ''seed'' = Inr v"
  shows "(if random_seed b \<or> v = None \<or> (\<exists>i. v = Some i \<and> i < 0)
          then seed b = Some (randint 0 (2 ^ 32 - 1) (entropy w (drawn w)))
               \<and> (\<exists>r. seed b = Some r \<and> 0 \<le> r \<and> r \<le> 2 ^ 32 - 1)
               \<and> drawn w' = drawn w + 1
          else seed b = v \<and> drawn w' = drawn w)
         \<and> (\<forall>b2 w2 w3. init_batch_num b w2 = Inr (b2, w3) \<longrightarrow> seed b2 = seed b)"
proof -
  from assms(1,2) obtain b0 w0 where
    v: "validate_fields data w = Inr (b0, w0)" and i: "init_batch_num b0 w0 = Inr (b, w')"
    by (auto simp: BaseBatchConfig_init_def and_then_eq_Inr)
  from init_batch_num_fields[OF i] have
    b: "seed b = seed b0" "random_seed b = random_seed b0" and d: "drawn w' = drawn w0"
    by (metis batch_config.select_convs batch_config.surjective batch_config.update_convs)+
  from validate_fields_Inr[OF v] assms(4) have
    s: "seed b0 = fst (seed_field data v (random_seed b0) w)"
       "w0 = snd (seed_field data v (random_seed b0) w)"
    by auto
  have r: "0 \<le> randint 0 (2 ^ 32 - 1) x \<and> randint 0 (2 ^ 32 - 1) x \<le> 2 ^ 32 - 1" for x
    using randint_range[of 0 "2 ^ 32 - 1" x] by simp
  have first: "if random_seed b \<or> v = None \<or> (\<exists>i. v = Some i \<and> i < 0)
          then seed b = Some (randint 0 (2 ^ 32 - 1) (entropy w (drawn w)))
               \<and> (\<exists>r. seed b = Some r \<and> 0 \<le> r \<and> r \<le> 2 ^ 32 - 1)
               \<and> drawn w' = drawn w + 1
          else seed b = v \<and> drawn w' = drawn w"
    using s b d assms(3) r
    by (auto simp: seed_field_def validate_seed_def split: option.splits)
  have later: "seed b2 = seed b" if "init_batch_num b w2 = Inr (b2, w3)" for b2 w2 w3
    using init_batch_num_fields[OF that]
    by (metis batch_config.select_convs batch_config.surjective batch_config.update_convs)
  show ?thesis using first later by blast
qed

theorem seed_resolution_closed_range_witness:
  "BaseBatchConfig_init example_data example_world = Inr (example_batch, example_world)
   \<and> example_data \<noteq> []
   \<and> map_of example_data ''seed'' \<noteq> None
   \<and> get_opt_int example_data ''seed'' = Inr (Some 42)
   \<and> seed example_batch = Some 42"
proof -
  have d: "example_data \<noteq> []" by (simp add: example_data_def)
  have m: "map_of example_data ''seed'' \<noteq> None" by (simp add: example_data_def)
  have g: "get_opt_int example_data ''seed'' = Inr (Some 42)"
    by (simp add: example_data_def get_opt_int_def)
  have r: "\<not> random_seed example_batch" by (simp add: example_batch_def)
  from seed_resolution_closed_range[OF example_init d m g]
  show ?thesis using example_init d m g r by auto
qed

section \<open>Batch directories (C9)\<close>

lemma Path_simple:
  "Path ''outputs'' = PurePath [] [''outputs'']"
  "Path ''exp'' = PurePath [] [''exp'']"
  "Path ''configs'' = PurePath [] [''configs'']"
  "Path ''/home/user'' = PurePath ''/'' [''home'', ''user'']"
  "Path ''exp(*)_config.yaml'' = PurePath [] [''exp(*)_config.yaml'']"
  by (simp_all add: Path_def splitroot_def)

lemma example_batch_dir:
  "batch_dir example_batch example_world =
     Inr (PurePath ''/'' [''home'', ''user'', ''outputs'', ''exp''],
          example_world\<lparr>fs := batch_dirs\<rparr>)"
  by (simp add: batch_dir_Inr example_batch_def example_world_def joinpath_def Path_simple
      mkdir_def batch_dirs_def)

lemma example_config_dir:
  "config_dir example_batch example_world =
     Inr (configs_path, example_world\<lparr>fs := batch_dirs @ [(configs_path, Dir)]\<rparr>)"
  by (simp add: config_dir_Inr example_batch_def example_world_def joinpath_def Path_simple
      mkdir_def batch_dirs_def configs_path_def)

text \<open>
  Claim C9, as stated, has every resolution of a batch directory create it.
  \<^verbatim>\<open>PathConfig.batch_dir\<close> only joins path components: it has no access to the file
  system, so on an empty file system the directory it returns does not exist after the
  resolution.
\<close>

theorem path_config_batch_dir_not_created_counterexample:
  "PathConfig_batch_dir example_path_config =
     Inr (PurePath ''/'' [''home'', ''user'', ''outputs'', ''exp''])
   \<and> \<not> is_dir ([] :: content filesystem) (PurePath ''/'' [''home'', ''user'', ''outputs'', ''exp''])"
  by (simp add: PathConfig_batch_dir_def PathConfig_output_dir_def root_dir_def
      example_path_config_def joinpath_def Path_simple is_dir_def)

text \<open>
  Claim C9, amended. \<^verbatim>\<open>PathConfig.batch_dir\<close> is \<open>root/outputs/batch_name\<close> (for a
  relative batch name, the parts of the root, then \<open>outputs\<close>, then the parts of the
  name) and creates nothing. \<^verbatim>\<open>BaseBatchConfig.batch_dir\<close> is
  \<open>output_dir/batch_name\<close> and \<^verbatim>\<open>config_dir\<close> is the configuration directory below
  it; when they return, the directory exists, every entry that existed is still there,
  and resolving again returns the same path and changes nothing. \<^verbatim>\<open>batch_dir\<close> returns
  whenever no regular file stands on the way to the directory.
\<close>

theorem batch_dir_created_idempotently:
  "PathConfig_batch_dir pc =
     (case (root pc, path_batch_name pc) of
        (Some r, Some n) \<Rightarrow> Inr (joinpath (joinpath (Path r) ''outputs'') n)
      | _ \<Rightarrow> Inl TypeError)
   \<and> (anchor (Path n) = [] \<longrightarrow>
        joinpath (joinpath (Path r) ''outputs'') n =
          PurePath (anchor (Path r)) (parts (Path r) @ [''outputs''] @ parts (Path n)))
   \<and> (batch_dir b w = Inr (p, w') \<longrightarrow>
        p = joinpath (output_dir b) (batch_name b) \<and> is_dir (fs w') p
        \<and> batch_dir b w' = Inr (p, w')
        \<and> (\<forall>q node. map_of (fs w) q = Some node \<longrightarrow> map_of (fs w') q = Some node))
   \<and> (config_dir b w = Inr (d, w'') \<longrightarrow>
        d = joinpath (joinpath (output_dir b) (batch_name b)) (config_dirname b)
        \<and> is_dir (fs w'') d \<and> config_dir b w'' = Inr (d, w'')
        \<and> (\<forall>q node. map_of (fs w) q = Some node \<longrightarrow> map_of (fs w'') q = Some node))
   \<and> ((\<forall>k. \<not> is_file (fs w) (PurePath (anchor (joinpath (output_dir b) (batch_name b)))
                              (take k (parts (joinpath (output_dir b) (batch_name b))))))
        \<longrightarrow> (\<exists>w'. batch_dir b w = Inr (joinpath (output_dir b) (batch_name b), w')))"
proof -
  have pc: "PathConfig_batch_dir pc =
     (case (root pc, path_batch_name pc) of
        (Some r, Some n) \<Rightarrow> Inr (joinpath (joinpath (Path r) ''outputs'') n)
      | _ \<Rightarrow> Inl TypeError)"
    by (simp add: PathConfig_batch_dir_def PathConfig_output_dir_def root_dir_def
        split: option.splits)
  have plain: "anchor (Path n) = [] \<Longrightarrow>
        joinpath (joinpath (Path r) ''outputs'') n =
          PurePath (anchor (Path r)) (parts (Path r) @ [''outputs''] @ parts (Path n))"
    by (simp add: joinpath_def Let_def Path_def[of "''outputs''"] splitroot_def)
  have bd: "p = joinpath (output_dir b) (batch_name b) \<and> is_dir (fs w') p
        \<and> batch_dir b w' = Inr (p, w')
        \<and> (\<forall>q node. map_of (fs w) q = Some node \<longrightarrow> map_of (fs w') q = Some node)"
    if "batch_dir b w = Inr (p, w')"
  proof -
    from that obtain f where p: "p = joinpath (output_dir b) (batch_name b)"
      and f: "mkdir (fs w) p = Inr f" and w': "w' = w\<lparr>fs := f\<rparr>"
      unfolding batch_dir_Inr by blast
    have "batch_dir b w' = Inr (p, w')"
      unfolding batch_dir_Inr using p mkdir_again[OF f] w' by simp
    then show ?thesis using p mkdir_is_dir[OF f] mkdir_keeps_files[OF f] w' by simp
  qed
  have cd: "d = joinpath (joinpath (output_dir b) (batch_name b)) (config_dirname b)
        \<and> is_dir (fs w') d \<and> config_dir b w' = Inr (d, w')
        \<and> (\<forall>q node. map_of (fs w) q = Some node \<longrightarrow> map_of (fs w') q = Some node)"
    if "config_dir b w = Inr (d, w')" for w'
  proof -
    from that obtain f g where
      d: "d = joinpath (joinpath (output_dir b) (batch_name b)) (config_dirname b)"
      and f: "mkdir (fs w) (joinpath (output_dir b) (batch_name b)) = Inr f"
      and g: "mkdir f d = Inr g" and w': "w' = w\<lparr>fs := g\<rparr>"
      unfolding config_dir_Inr by blast
    have "config_dir b w' = Inr (d, w')"
      unfolding config_dir_Inr using d mkdir_later_again[OF f g] mkdir_again[OF g] w' by simp
    moreover have "map_of g q = Some node" if "map_of (fs w) q = Some node" for q node
      using mkdir_keeps_files[OF g mkdir_keeps_files[OF f that]] .
    ultimately show ?thesis using d mkdir_is_dir[OF g] w' by simp
  qed
  have ok: "\<exists>w'. batch_dir b w = Inr (joinpath (output_dir b) (batch_name b), w')"
    if "\<forall>k. \<not> is_file (fs w) (PurePath (anchor (joinpath (output_dir b) (batch_name b)))
                              (take k (parts (joinpath (output_dir b) (batch_name b)))))"
    using mkdir_succeeds[of "fs w" "joinpath (output_dir b) (batch_name b)"] that
    unfolding batch_dir_Inr by auto
  show ?thesis using pc plain bd cd ok by blast
qed

theorem batch_dir_created_idempotently_witness:
  "batch_dir example_batch example_world =
     Inr (PurePath ''/'' [''home'', ''user'', ''outputs'', ''exp''],
          example_world\<lparr>fs := batch_dirs\<rparr>)
   \<and> is_dir batch_dirs (PurePath ''/'' [''home'', ''user'', ''outputs'', ''exp''])
   \<and> config_dir example_batch example_world =
        Inr (configs_path, example_world\<lparr>fs := batch_dirs @ [(configs_path, Dir)]\<rparr>)
   \<and> is_dir (batch_dirs @ [(configs_path, Dir)]) configs_path
   \<and> anchor (Path ''exp'') = []
   \<and> PathConfig_batch_dir example_path_config =
        Inr (PurePath ''/'' [''home'', ''user'', ''outputs'', ''exp''])"
proof -
  have a: "anchor (Path ''exp'') = []" by (simp add: Path_simple)
  have r: "root example_path_config = Some ''/home/user''"
    "path_batch_name example_path_config = Some ''exp''"
    by (simp_all add: example_path_config_def)
  from batch_dir_created_idempotently[where pc = example_path_config and n = "''exp''"
      and r = "''/home/user''" and b = example_batch and w = example_world
      and p = "PurePath ''/'' [''home'', ''user'', ''outputs'', ''exp'']"
      and w' = "example_world\<lparr>fs := batch_dirs\<rparr>" and d = configs_path
      and w'' = "example_world\<lparr>fs := batch_dirs @ [(configs_path, Dir)]\<rparr>"]
  moreover have "joinpath (output_dir example_batch) (batch_name example_batch) =
      PurePath ''/'' [''home'', ''user'', ''outputs'', ''exp'']"
    by (simp add: example_batch_def joinpath_def Path_simple)
  ultimately show ?thesis using example_batch_dir example_config_dir a r
    by (simp add: Path_simple)
qed

section \<open>The batch number (C1)\<close>

lemma resume_validate: "validate_fields resume_data saved_world = Inr (resume_batch, saved_world)"
  by (simp add: resume_data_def validate_fields_def get_str_def
      get_required_str_def get_opt_str_def get_opt_int_def get_bool_def get_path_def
      seed_field_def output_extention_field_def resume_batch_def saved_world_def
      example_world_def joinpath_def Path_simple)

lemma resume_config_dir: "config_dir resume_batch saved_world = Inr (configs_path, saved_world)"
  by (simp add: config_dir_Inr resume_batch_def saved_world_def example_world_def saved_fs_def
      joinpath_def Path_simple mkdir_def configs_path_def)

lemma resume_glob:
  "glob (fs saved_world) configs_path (config_filepattern resume_batch) =
     Inr [PurePath ''/'' [''home'', ''user'', ''outputs'', ''exp'', ''configs'', ''exp(0)_config.yaml''],
          PurePath ''/'' [''home'', ''user'', ''outputs'', ''exp'', ''configs'', ''exp(1)_config.yaml'']]"
  by (simp add: glob_def config_filepattern_def resume_batch_def Path_simple saved_world_def
      example_world_def saved_fs_def glob_match_def configs_path_def)

text \<open>
  Claim C1. A configuration constructed with \<^verbatim>\<open>batch_num\<close> unset, whose configuration
  directory lists \<open>N\<close> entries matching \<open>batch_name(*)_config.yaml\<close>, has batch number
  \<open>N\<close>, or \<open>N - 1\<close> with \<^verbatim>\<open>resume_latest\<close>; with no such entry and \<^verbatim>\<open>resume_latest\<close>
  the batch number is \<open>- 1\<close>. For a relative \<^verbatim>\<open>config_dirname\<close> the entries counted are
  those of the file system before the construction (creating the directories adds
  none).
\<close>

theorem init_batch_num_counts_config_files:
  assumes "data \<noteq> []"
      and "validate_fields data w = Inr (b0, w0)"
      and "batch_num b0 = None"
      and "config_dir b0 w0 = Inr (d, w1)"
      and "glob (fs w1) d (config_filepattern b0) = Inr found"
  shows "BaseBatchConfig_init data w =
           Inr (b0\<lparr>batch_num := Some (if resume_latest b0 then int (length found) - 1
                                       else int (length found))\<rparr>, w1)
         \<and> (anchor (Path (config_dirname b0)) = []
              \<longrightarrow> glob (fs w) d (config_filepattern b0) = Inr found)
         \<and> (found = [] \<and> resume_latest b0
              \<longrightarrow> BaseBatchConfig_init data w = Inr (b0\<lparr>batch_num := Some (- 1)\<rparr>, w1))"
proof -
  have init: "BaseBatchConfig_init data w =
           Inr (b0\<lparr>batch_num := Some (if resume_latest b0 then int (length found) - 1
                                       else int (length found))\<rparr>, w1)"
    using assms by (simp add: BaseBatchConfig_init_def init_batch_num_def Let_def)
  have same: "glob (fs w) d (config_filepattern b0) = Inr found"
    if rel: "anchor (Path (config_dirname b0)) = []"
  proof -
    from assms(4) obtain f g where
      d: "d = joinpath (joinpath (output_dir b0) (batch_name b0)) (config_dirname b0)"
      and f: "mkdir (fs w0) (joinpath (output_dir b0) (batch_name b0)) = Inr f"
      and g: "mkdir f d = Inr g" and w1: "w1 = w0\<lparr>fs := g\<rparr>"
      unfolding config_dir_Inr by blast
    have len: "length (parts (joinpath (output_dir b0) (batch_name b0))) \<le> length (parts d)"
      unfolding d using rel by (simp add: joinpath_def[of _ "config_dirname b0"] Let_def)
    have "fs w0 = fs w"
      using validate_fields_Inr[OF assms(2)] by (auto simp: seed_field_world)
    then show ?thesis
      using assms(5) mkdir_glob[OF g order_refl] mkdir_glob[OF f len] w1 by simp
  qed
  show ?thesis using init same by auto
qed

theorem init_batch_num_counts_config_files_witness:
  "resume_data \<noteq> []
   \<and> validate_fields resume_data saved_world = Inr (resume_batch, saved_world)
   \<and> batch_num resume_batch = None
   \<and> config_dir resume_batch saved_world = Inr (configs_path, saved_world)
   \<and> BaseBatchConfig_init resume_data saved_world =
        Inr (resume_batch\<lparr>batch_num := Some 1\<rparr>, saved_world)"
proof -
  have d: "resume_data \<noteq> []" by (simp add: resume_data_def)
  have n: "batch_num resume_batch = None" "resume_latest resume_batch"
    by (simp_all add: resume_batch_def)
  from init_batch_num_counts_config_files[OF d resume_validate n(1) resume_config_dir resume_glob]
  show ?thesis using d resume_validate n resume_config_dir by simp
qed

section \<open>Skipping the fetch of an existing split (C5)\<close>

lemma Path_data:
  "Path ''/data'' = PurePath ''/'' [''data'']"
  "Path ''corpus-train.csv'' = PurePath [] [''corpus-train.csv'']"
  "Path ''c-train.csv'' = PurePath [] [''c-train.csv'']"
  "Path ''c-dev.csv'' = PurePath [] [''c-dev.csv'']"
  by (simp_all add: Path_def splitroot_def)

lemma example_keeps_paths: "keeps_paths example_collab"
  by (simp add: keeps_paths_def example_collab_def)

lemma example_output_file:
  "split_output_file example_builder (Path ''/data'') ''train'' =
     PurePath ''/'' [''data'', ''corpus-train.csv'']"
  by (simp add: split_output_file_def example_builder_def joinpath_def Path_data)

lemma example_setup_built:
  "split_setup example_builder ''train'' built_world =
     Inr (example_builder, built_world, Path ''/data'')"
  by (simp add: split_setup_def example_builder_def built_world_def Path_data is_dir_def
      register_save_metadata_def register_save_samples_def register_save_dataframe_def)

lemma example_build_skips:
  "build example_collab example_builder built_world =
     Inr (example_builder,
          built_world\<lparr>trace := [Logged ''/data/corpus-train.csv already exists'',
                                 Logged ''No datasets found'']\<rparr>)"
proof -
  have "fetch_split example_collab example_builder ''train'' (Path ''/data'') built_world =
      Inr (None, emit (Logged ''/data/corpus-train.csv already exists'') built_world)"
    unfolding fetch_split_def example_output_file
    by (simp add: exists_path_def built_world_def path_str_def example_builder_def)
  then have "process_split example_collab example_builder ''train'' built_world =
      Inr (example_builder,
          built_world\<lparr>trace := [Logged ''/data/corpus-train.csv already exists'',
                                 Logged ''No datasets found'']\<rparr>)"
    using example_setup_built
    by (simp add: process_split_def finish_split_def emit_def built_world_def)
  moreover have "build_start example_collab example_builder built_world =
      Inr (example_builder, built_world)"
    by (simp add: build_start_def run_downloads_def example_builder_def)
  moreover have "fetch_sources example_builder = Some [(''train'', Some [''src.csv''])]"
    "\<not> summary_info example_builder"
    by (simp_all add: example_builder_def)
  ultimately show ?thesis by (simp add: build_def)
qed

text \<open>
  Claim C5. When the output file of a split exists and \<^verbatim>\<open>overwrite\<close> is false,
  processing the split never calls the loader, whether it returns or raises. When the
  set-up of the split succeeds, what it does next is exactly: the message that the file
  exists, then one reload of that file if and only if statistics or text preprocessing
  were requested, then steps that neither load nor reload. For a whole \<^verbatim>\<open>build()\<close>:
  when every declared split has its output file and the collaborators remove no
  existing path, the loader is not called at all.
\<close>

theorem existing_output_skips_loader:
  assumes "db_data_dir b = Some dd" and "\<not> overwrite b"
  shows "(exists_path (bfs w) (split_output_file b (Path dd) split) \<longrightarrow>
            loader_calls (trace (world_of (process_split c b split w))) = loader_calls (trace w)
          \<and> (\<forall>b1 w1 out. split_setup b split w = Inr (b1, w1, out) \<longrightarrow>
               (\<exists>rest. trace (world_of (process_split c b split w)) =
                  trace w
                  @ Logged (path_str (split_output_file b (Path dd) split) @ '' already exists'')
                  # (if calculate_stats b \<or> preprocess_text b
                     then [DataframeLoaded (split_output_file b (Path dd) split)] else [])
                  @ rest
                \<and> loader_calls rest = [] \<and> (\<forall>p. DataframeLoaded p \<notin> set rest))))
       \<and> (keeps_paths c \<and> fetch_sources b = Some sources
            \<and> (\<forall>s \<in> fst ` set sources. exists_path (bfs w) (split_output_file b (Path dd) s))
          \<longrightarrow> loader_calls (trace (world_of (build c b w))) = loader_calls (trace w))"
proof -
  have whole: "loader_calls (trace (world_of (build c b w))) = loader_calls (trace w)"
    if k: "keeps_paths c" and fs: "fetch_sources b = Some sources"
      and ex: "\<forall>s \<in> fst ` set sources. exists_path (bfs w) (split_output_file b (Path dd) s)"
  proof (cases "build_start c b w")
    case (Inl ew)
    obtain e w1 where "ew = (e, w1)" by (cases ew)
    then show ?thesis using Inl build_start_Inl[of c b w e w1] by (simp add: build_def)
  next
    case (Inr bw)
    obtain b1 w1 where bw: "bw = (b1, w1)" by (cases bw)
    with Inr have st: "build_start c b w = Inr (b1, w1)" by simp
    note f = build_start_Inr[OF st]
    have same: "split_output_file b1 (Path dd) s = split_output_file b (Path dd) s" for s
      using f by (simp add: split_output_file_def)
    have loop: "loader_calls (trace (world_of (process_splits c b1 sources w1)))
        = loader_calls (trace w1)"
    proof (rule process_splits_skip[OF k])
      show "\<not> overwrite b1" using f assms(2) by simp
      show "db_data_dir b1 = Some dd" using f assms(1) by simp
      show "\<forall>s \<in> fst ` set sources. exists_path (bfs w1) (split_output_file b1 (Path dd) s)"
        unfolding same using f k ex by auto
    qed
    have src: "fetch_sources b1 = Some sources" using f fs by simp
    show ?thesis
    proof (cases "process_splits c b1 sources w1")
      case (Inl ew)
      obtain e w2 where "ew = (e, w2)" by (cases ew)
      then show ?thesis using Inl st src loop f by (simp add: build_def)
    next
      case (Inr bw2)
      obtain b2 w2 where "bw2 = (b2, w2)" by (cases bw2)
      then show ?thesis using Inr st src loop f
        by (cases "save_info c (bfs w2)") (auto simp: build_def Let_def)
    qed
  qed
  note one = process_split_skip[OF assms(1) _ assms(2), of w split c]
  show ?thesis
    apply (rule conjI)
     apply (rule impI)
     apply (erule one)
    apply (rule impI)
    apply (elim conjE)
    apply (rule whole; assumption)
    done
qed

theorem existing_output_skips_loader_witness:
  "db_data_dir example_builder = Some ''/data'' \<and> \<not> overwrite example_builder
   \<and> exists_path (bfs built_world) (split_output_file example_builder (Path ''/data'') ''train'')
   \<and> keeps_paths example_collab
   \<and> fetch_sources example_builder = Some [(''train'', Some [''src.csv''])]
   \<and> loader_calls (trace (world_of (build example_collab example_builder built_world))) = []
   \<and> build example_collab example_builder built_world =
        Inr (example_builder,
             built_world\<lparr>trace := [Logged ''/data/corpus-train.csv already exists'',
                                    Logged ''No datasets found'']\<rparr>)"
proof -
  have d: "db_data_dir example_builder = Some ''/data''" and o: "\<not> overwrite example_builder"
    and s: "fetch_sources example_builder = Some [(''train'', Some [''src.csv''])]"
    by (simp_all add: example_builder_def)
  have e: "exists_path (bfs built_world) (split_output_file example_builder (Path ''/data'') ''train'')"
    unfolding example_output_file by (simp add: exists_path_def built_world_def)
  have t: "trace built_world = []" by (simp add: built_world_def)
  from existing_output_skips_loader[OF d o, of built_world "''train''" example_collab
      "[(''train'', Some [''src.csv''])]"]
  show ?thesis using d o e s t example_keeps_paths example_build_skips by simp
qed

section \<open>A loader that yields no table (C6)\<close>

lemma example_setup_empty:
  "split_setup example_builder ''train'' empty_bworld =
     Inr (example_builder, \<lparr>bfs = [(PurePath ''/'' [''data''], Dir)], trace = []\<rparr>, Path ''/data'')"
  by (simp add: split_setup_def example_builder_def empty_bworld_def Path_data is_dir_def
      mkdir_def register_save_metadata_def register_save_samples_def
      register_save_dataframe_def)

text \<open>
  Claim C6. When the loader is invoked for a split (its output file is absent, or
  \<^verbatim>\<open>overwrite\<close> is set) and yields \<^verbatim>\<open>None\<close>, \<^verbatim>\<open>_process_split\<close> raises
  \<^verbatim>\<open>ValueError\<close> at once: the loader call is the last event, no pipeline step (the
  steps that write the output files) has run for the split, and the file system is the
  one the loader left. \<^verbatim>\<open>build()\<close> raises the same error in the same world: no later
  split is processed and the summary is not saved.
\<close>

theorem loader_none_raises_before_persistence:
  assumes "split_setup b split w = Inr (b1, w1, out)"
      and "\<not> exists_path (bfs w1) (split_output_file b1 out split) \<or> overwrite b1"
      and "run_loader c split (bfs w1) = Inr (None, f)"
  shows "process_split c b split w = Inl (ValueError, (emit (LoaderCalled split) w1)\<lparr>bfs := f\<rparr>)
       \<and> trace ((emit (LoaderCalled split) w1)\<lparr>bfs := f\<rparr>) = trace w @ [LoaderCalled split]
       \<and> (build_start c b0 w0 = Inr (b', w')
            \<and> fetch_sources b' = Some (pre @ (split, Some src) # rest)
            \<and> process_splits c b' pre w' = Inr (b, w)
          \<longrightarrow> build c b0 w0 = Inl (ValueError, (emit (LoaderCalled split) w1)\<lparr>bfs := f\<rparr>))"
proof -
  have fetch: "fetch_split c b1 split out w1 =
      Inl (ValueError, (emit (LoaderCalled split) w1)\<lparr>bfs := f\<rparr>)"
    using assms(2,3) by (auto simp: fetch_split_def Let_def)
  then have one: "process_split c b split w =
      Inl (ValueError, (emit (LoaderCalled split) w1)\<lparr>bfs := f\<rparr>)"
    using assms(1) by (simp add: process_split_def)
  have tr: "trace ((emit (LoaderCalled split) w1)\<lparr>bfs := f\<rparr>) = trace w @ [LoaderCalled split]"
    using split_setup_Inr[OF assms(1)] by simp
  have whole: "build c b0 w0 = Inl (ValueError, (emit (LoaderCalled split) w1)\<lparr>bfs := f\<rparr>)"
    if "build_start c b0 w0 = Inr (b', w')"
      "fetch_sources b' = Some (pre @ (split, Some src) # rest)"
      "process_splits c b' pre w' = Inr (b, w)"
  proof -
    have "process_splits c b' (pre @ (split, Some src) # rest) w' =
        Inl (ValueError, (emit (LoaderCalled split) w1)\<lparr>bfs := f\<rparr>)"
      using that(3) one by (simp add: process_splits_append)
    then show ?thesis using that(1,2) by (simp add: build_def)
  qed
  show ?thesis
    apply (rule conjI)
     apply (rule one)
    apply (rule conjI)
     apply (rule tr)
    apply (rule impI)
    apply (elim conjE)
    apply (rule whole; assumption)
    done
qed

theorem loader_none_raises_before_persistence_witness:
  "split_setup example_builder ''train'' empty_bworld =
     Inr (example_builder, \<lparr>bfs = [(PurePath ''/'' [''data''], Dir)], trace = []\<rparr>, Path ''/data'')
   \<and> \<not> exists_path [(PurePath ''/'' [''data''], Dir :: string list fnode)]
         (split_output_file example_builder (Path ''/data'') ''train'')
   \<and> run_loader example_collab ''train'' [(PurePath ''/'' [''data''], Dir)] =
        Inr (None, [(PurePath ''/'' [''data''], Dir)])
   \<and> build example_collab example_builder empty_bworld =
        Inl (ValueError, \<lparr>bfs = [(PurePath ''/'' [''data''], Dir)],
                          trace = [LoaderCalled ''train'']\<rparr>)"
proof -
  have n: "\<not> exists_path (bfs \<lparr>bfs = [(PurePath ''/'' [''data''], Dir :: string list fnode)],
                               trace = []\<rparr>)
         (split_output_file example_builder (Path ''/data'') ''train'')
      \<or> overwrite example_builder"
    unfolding example_output_file by (simp add: exists_path_def)
  have l: "run_loader example_collab ''train''
        (bfs \<lparr>bfs = [(PurePath ''/'' [''data''], Dir :: string list fnode)], trace = []\<rparr>) =
        Inr (None, [(PurePath ''/'' [''data''], Dir)])"
    by (simp add: example_collab_def)
  have st: "build_start example_collab example_builder empty_bworld =
      Inr (example_builder, empty_bworld)"
    by (simp add: build_start_def run_downloads_def example_builder_def)
  have s: "fetch_sources example_builder = Some ([] @ (''train'', Some [''src.csv'']) # [])"
    by (simp add: example_builder_def)
  have p: "process_splits example_collab example_builder [] empty_bworld =
      Inr (example_builder, empty_bworld)" by simp
  from loader_none_raises_before_persistence[OF example_setup_empty n l,
      of example_builder empty_bworld example_builder empty_bworld "[]" "[''src.csv'']" "[]"]
  moreover have "\<not> exists_path [(PurePath ''/'' [''data''], Dir :: string list fnode)]
         (split_output_file example_builder (Path ''/data'') ''train'')"
    unfolding example_output_file by (simp add: exists_path_def)
  ultimately show ?thesis using example_setup_empty l st s p by (simp add: emit_def)
qed

section \<open>Loading a dataset once (C8)\<close>

lemma example_load:
  "load example_dataset_collab example_dataset empty_bworld =
     Inr (loaded_dataset,
          empty_bworld\<lparr>trace := [DataframeLoaded (PurePath ''/'' [''data'', ''c-train.csv'']),
                                  DataframeLoaded (PurePath ''/'' [''data'', ''c-dev.csv''])]\<rparr>)"
  by (simp add: load_def example_dataset_def example_dataset_collab_def loaded_dataset_def
      empty_bworld_def joinpath_def Path_data emit_def path_str_def)

text \<open>
  Claim C8. After a \<^verbatim>\<open>Dataset.load\<close> that succeeded, the dataset is marked loaded and
  every further \<^verbatim>\<open>load\<close> returns at once: it reads no file, records nothing and
  leaves the dataset, with its cached tables in \<^verbatim>\<open>splits\<close>, as it is. The first load
  of a dataset that was not loaded reads the file of each declared split exactly once,
  in the declared order, and caches a table for each split.
\<close>

theorem load_is_idempotent:
  assumes "load c d w = Inr (d', w')"
  shows "loaded d'
       \<and> (\<forall>w2. load c d' w2 = Inr (d', w2))
       \<and> (if loaded d then d' = d \<and> w' = w
           else dataframe_reads (trace w') =
                  dataframe_reads (trace w)
                  @ map (\<lambda>(s, f). joinpath (ds_data_dir d) f) (data_files d)
                \<and> fst ` set (data_files d) \<subseteq> fst ` set (splits d'))"
proof (cases "loaded d")
  case True
  then show ?thesis using assms by (auto simp: load_def)
next
  case False
  with assms obtain d1 where
    f: "load_files c d (data_files d) w = Inr (d1, w')" and d': "d' = d1\<lparr>loaded := True\<rparr>"
    by (auto simp: load_def and_then_eq_Inr)
  from load_files_Inr[OF f] show ?thesis using False d' by (auto simp: load_def)
qed

theorem load_is_idempotent_witness:
  "load example_dataset_collab example_dataset empty_bworld =
     Inr (loaded_dataset,
          empty_bworld\<lparr>trace := [DataframeLoaded (PurePath ''/'' [''data'', ''c-train.csv'']),
                                  DataframeLoaded (PurePath ''/'' [''data'', ''c-dev.csv''])]\<rparr>)
   \<and> load example_dataset_collab loaded_dataset
        (empty_bworld\<lparr>trace := [DataframeLoaded (PurePath ''/'' [''data'', ''c-train.csv'']),
                                 DataframeLoaded (PurePath ''/'' [''data'', ''c-dev.csv''])]\<rparr>) =
     Inr (loaded_dataset,
          empty_bworld\<lparr>trace := [DataframeLoaded (PurePath ''/'' [''data'', ''c-train.csv'']),
                                  DataframeLoaded (PurePath ''/'' [''data'', ''c-dev.csv''])]\<rparr>)
   \<and> splits loaded_dataset =
        [(''train'', [''/data/c-train.csv'']), (''dev'', [''/data/c-dev.csv''])]"
proof -
  from load_is_idempotent[OF example_load]
  show ?thesis using example_load by (simp add: loaded_dataset_def)
qed

end
